theory Spec2Isabelle
  imports Complex_Main
begin

section \<open>Coordinate mapper of the zoom view\<close>

text \<open>
  \<^verbatim>\<open>this._data.adapter\<close> of \<^verbatim>\<open>WaveformZoomView\<close>: the resampled waveform data. The
  fields are JavaScript numbers; they are modelled as reals.
\<close>

record adapter =
  sample_rate :: real
  scale :: real

text \<open>
  \<^verbatim>\<open>WaveformZoomView.prototype.timeToPixels\<close>:
  \<^verbatim>\<open>Math.floor(time * this._data.adapter.sample_rate / this._data.adapter.scale)\<close>.
\<close>

definition timeToPixels :: "adapter \<Rightarrow> real \<Rightarrow> real" where
  "timeToPixels a time = of_int \<lfloor>time * sample_rate a / scale a\<rfloor>"

text \<open>
  \<^verbatim>\<open>WaveformZoomView.prototype.pixelsToTime\<close>:
  \<^verbatim>\<open>pixels * this._data.adapter.scale / this._data.adapter.sample_rate\<close>.
\<close>

definition pixelsToTime :: "adapter \<Rightarrow> real \<Rightarrow> real" where
  "pixelsToTime a pixels = pixels * scale a / sample_rate a"

section \<open>JavaScript numbers and values\<close>

text \<open>
  A JavaScript number is a finite value, an infinity or NaN. Finite values are
  idealised as reals; the three non-finite values are kept apart because comparison and
  \<^verbatim>\<open>Math.round\<close> treat them specially.
\<close>

datatype jsnum = Num real | PosInf | NegInf | NaN

text \<open>The relational operator \<^verbatim>\<open><\<close>: every comparison with NaN is false.\<close>

fun js_lt :: "jsnum \<Rightarrow> jsnum \<Rightarrow> bool" where
  "js_lt NaN _ = False"
| "js_lt _ NaN = False"
| "js_lt (Num a) (Num b) = (a < b)"
| "js_lt NegInf NegInf = False"
| "js_lt NegInf _ = True"
| "js_lt _ NegInf = False"
| "js_lt PosInf _ = False"
| "js_lt (Num a) PosInf = True"

definition js_gt :: "jsnum \<Rightarrow> jsnum \<Rightarrow> bool" where
  "js_gt a b = js_lt b a"

text \<open>\<^verbatim>\<open>Math.round\<close>: the nearest integer, halves towards plus infinity.\<close>

fun Math_round :: "jsnum \<Rightarrow> jsnum" where
  "Math_round (Num r) = Num (of_int \<lfloor>r + 1 / 2\<rfloor>)"
| "Math_round PosInf = PosInf"
| "Math_round NegInf = NegInf"
| "Math_round NaN = NaN"

text \<open>
  A value passed by the host: a number, or any value whose \<^verbatim>\<open>typeof\<close> is not
  \<^verbatim>\<open>'number'\<close>.
\<close>

datatype jsval = JSNumber jsnum | JSOther

datatype js_error = Error string | TypeError | RangeError

section \<open>Utilities (waveform.utils)\<close>

text \<open>\<^verbatim>\<open>Utils.clamp(value, min, max)\<close>.\<close>

definition clamp :: "jsnum \<Rightarrow> jsnum \<Rightarrow> jsnum \<Rightarrow> jsnum" where
  "clamp v mn mx = (if js_lt v mn then mn else if js_gt v mx then mx else v)"

text \<open>\<^verbatim>\<open>Utils.isNumber(value)\<close>: \<^verbatim>\<open>typeof value === 'number'\<close>.\<close>

fun isNumber :: "jsval \<Rightarrow> bool" where
  "isNumber (JSNumber _) = True"
| "isNumber JSOther = False"

text \<open>\<^verbatim>\<open>Number.isFinite(value)\<close>, as the polyfill in waveform.utils spells it out.\<close>

fun Number_isFinite :: "jsval \<Rightarrow> bool" where
  "Number_isFinite JSOther = False"
| "Number_isFinite (JSNumber NaN) = False"
| "Number_isFinite (JSNumber PosInf) = False"
| "Number_isFinite (JSNumber NegInf) = False"
| "Number_isFinite (JSNumber (Num _)) = True"

section \<open>Viewport state of the zoom view\<close>

text \<open>
  The fields of \<^verbatim>\<open>WaveformZoomView\<close> that its viewport updates read and write.
  \<^verbatim>\<open>_pixelLength\<close> is an array length and \<^verbatim>\<open>_width\<close> is the container's
  \<^verbatim>\<open>clientWidth\<close>, so both are integers; \<^verbatim>\<open>_frameOffset\<close> and
  \<^verbatim>\<open>_amplitudeScale\<close> hold whatever number was assigned.
\<close>

record zoomView =
  pixelLength :: int
  width :: int
  frameOffset :: jsnum
  amplitudeScale :: jsval

text \<open>
  \<^verbatim>\<open>WaveformZoomView.prototype._updateWaveform\<close>, up to the assignment of
  \<^verbatim>\<open>this._frameOffset\<close>. The statements after it redraw and notify the playhead,
  points and segments layers; none of them assigns a field of this record.
\<close>

definition updateWaveform :: "zoomView \<Rightarrow> jsnum \<Rightarrow> zoomView" where
  "updateWaveform v frameOffset0 =
     (let (frameOffset1, upperLimit) =
            (if pixelLength v < width v then (Num 0, width v)
             else (frameOffset0, pixelLength v - width v));
          frameOffset2 = clamp (Math_round frameOffset1) (Num 0) (Num (of_int upperLimit))
      in v\<lparr>frameOffset := frameOffset2\<rparr>)"

text \<open>
  \<^verbatim>\<open>WaveformZoomView.prototype.setAmplitudeScale\<close>: the thrown \<^verbatim>\<open>Error\<close> is
  the left summand, and then no field has been assigned.
\<close>

definition setAmplitudeScale :: "zoomView \<Rightarrow> jsval \<Rightarrow> js_error + zoomView" where
  "setAmplitudeScale v s =
     (if \<not> isNumber s \<or> \<not> Number_isFinite s
      then Inl (Error ''view.setAmplitudeScale(): Scale must be a valid number'')
      else Inr (v\<lparr>amplitudeScale := s\<rparr>))"

section \<open>Segments layer: data\<close>

text \<open>
  The layer of \<^verbatim>\<open>src/main/views/segments-layer.js\<close> that resolves hover and drag from
  the pointer position; line numbers below are those of that file.

  A segment is an object of the host's segment store, reached through its id; a segment
  group is the Konva group the layer builds for it, reached through its address. The
  layer keeps the groups in \<^verbatim>\<open>this._segmentGroups\<close>, an object keyed by segment id;
  a group captured as a neighbour stays reachable after it has left that object, hence
  the separate heap of groups. Times and pixel positions are JavaScript numbers and are
  idealised as reals: the rounding of doubles is not modelled, and NaN and the infinities
  do not occur as long as the adapter's sample rate and scale are not 0.
\<close>

type_synonym sid = string
type_synonym ref = nat

record segment =
  startTime :: real
  endTime :: real

text \<open>
  A handle is a \<^verbatim>\<open>Konva.Rect\<close> with the extra properties the layer stores on it.
  \<^verbatim>\<open>isMouseOver\<close> is \<^verbatim>\<open>undefined\<close> (\<open>None\<close>) until the first hover pass and is
  compared with \<^verbatim>\<open>!==\<close>; \<^verbatim>\<open>isMouseDragging\<close> is only tested for truthiness, so
  \<^verbatim>\<open>undefined\<close> is \<open>False\<close>. \<^verbatim>\<open>mouseStartDiffX\<close> is read only while
  \<^verbatim>\<open>isMouseDragging\<close> is set, and \<^verbatim>\<open>mousedown\<close> assigns both together.
\<close>

record handle =
  h_isMouseOver :: "bool option"
  h_isMouseDragging :: bool
  mouseStartDiffX :: real
  h_x :: real

record rect =
  rect_x :: real
  rect_width :: real

record neighbours =
  left :: "ref option"
  right :: "ref option"

record segmentGroup =
  segment :: sid
  isMouseOver :: "bool option"
  isSegmentTouching :: bool
  neighbours :: "neighbours option"
  highlightRect :: rect
  startHandle :: handle
  endHandle :: handle

text \<open>
  What \<^verbatim>\<open>this._peaks.emit\<close> is called with. The second component of the drag and
  handle events is the payload's \<^verbatim>\<open>isInHandle\<close>, which some call sites leave out.
\<close>

datatype event =
    SegmentsDragged ref "bool option"
  | SegmentGroupMouseEnter ref
  | SegmentGroupMouseLeave ref
  | HandleMouseEnter ref "bool option"
  | HandleMouseLeave ref "bool option"
  | ZoomviewMouseUp

text \<open>
  The state of a \<^verbatim>\<open>SegmentsLayer\<close> and of what it reaches: the segments of the host
  store, the group objects, \<^verbatim>\<open>_segmentGroups\<close> in key order, the pointer state, and
  what the layer reads from its view (\<^verbatim>\<open>getFrameOffset()\<close>, \<^verbatim>\<open>getWidth()\<close> and the
  adapter behind \<^verbatim>\<open>pixelsToTime\<close> and \<^verbatim>\<open>timeToPixels\<close>; the frame offset is taken
  to be finite here). \<open>emitted\<close> logs the events in order, \<open>draws\<close> counts the calls
  of \<^verbatim>\<open>this._layer.draw()\<close>, \<open>allocated\<close> is the number of groups created so far.
  Opacity, fill and visibility of the shapes are not modelled: the code only writes
  them.
\<close>

record layer =
  segments :: "sid \<Rightarrow> segment"
  groups :: "ref \<Rightarrow> segmentGroup"
  segmentGroups :: "(sid \<times> ref) list"
  allocated :: nat
  mouseX :: "real option"
  mouseY :: "real option"
  l_isMouseDragging :: bool
  l_isMouseOver :: bool
  visibleSegmentsCount :: nat
  viewFrameOffset :: real
  viewWidth :: real
  viewData :: adapter
  emitted :: "event list"
  draws :: nat

text \<open>\<^verbatim>\<open>this._handleSize\<close>, the width and the height of both handles.\<close>

definition handleSize :: real where
  "handleSize = 16"

text \<open>\<^verbatim>\<open>var minSegmentDuration = 0.2\<close> of \<^verbatim>\<open>_renderSegmentGroup\<close>.\<close>

definition minSegmentDuration :: real where
  "minSegmentDuration = 2 / 10"

text \<open>Sequencing of calls that may throw.\<close>

definition thenDo :: "js_error + 'a \<Rightarrow> ('a \<Rightarrow> js_error + 'b) \<Rightarrow> js_error + 'b" where
  "thenDo m f = (case m of Inl e \<Rightarrow> Inl e | Inr a \<Rightarrow> f a)"

text \<open>
  Comparisons of a pointer coordinate that may still be \<^verbatim>\<open>undefined\<close>: then every
  comparison is false.
\<close>

definition pointerGt :: "real option \<Rightarrow> real \<Rightarrow> bool" where
  "pointerGt p c = (case p of None \<Rightarrow> False | Some x \<Rightarrow> x > c)"

definition pointerLe :: "real option \<Rightarrow> real \<Rightarrow> bool" where
  "pointerLe p c = (case p of None \<Rightarrow> False | Some x \<Rightarrow> x \<le> c)"

definition pointerGe :: "real option \<Rightarrow> real \<Rightarrow> bool" where
  "pointerGe p c = (case p of None \<Rightarrow> False | Some x \<Rightarrow> x \<ge> c)"

section \<open>Segments layer: rendering and the drag resolver\<close>

text \<open>Assignment to properties of one group object.\<close>

definition updateGroup :: "layer \<Rightarrow> ref \<Rightarrow> (segmentGroup \<Rightarrow> segmentGroup) \<Rightarrow> layer" where
  "updateGroup L g f = L\<lparr>groups := (groups L)(g := f (groups L g))\<rparr>"

text \<open>\<^verbatim>\<open>group.isSegmentTouching = b\<close>.\<close>

definition setTouching :: "layer \<Rightarrow> ref \<Rightarrow> bool \<Rightarrow> layer" where
  "setTouching L g b = updateGroup L g (\<lambda>grp. grp\<lparr>isSegmentTouching := b\<rparr>)"

text \<open>
  \<^verbatim>\<open>this._peaks.emit\<close>, as far as the layer is concerned: the event is logged. What
  listeners of the host do with it is outside the model.
\<close>

definition emit :: "layer \<Rightarrow> event \<Rightarrow> layer" where
  "emit L ev = L\<lparr>emitted := emitted L @ [ev]\<rparr>"

text \<open>\<^verbatim>\<open>this._layer.draw()\<close>.\<close>

definition draw :: "layer \<Rightarrow> layer" where
  "draw L = L\<lparr>draws := Suc (draws L)\<rparr>"

text \<open>The segment object of a group.\<close>

definition segmentOf :: "layer \<Rightarrow> ref \<Rightarrow> segment" where
  "segmentOf L g = segments L (segment (groups L g))"

text \<open>
  Lines 1243 to 1246 of \<^verbatim>\<open>_renderSegmentGroup\<close>: the start handle's commit,
  \<^verbatim>\<open>if (newTime !== segment.startTime) { segment.startTime = newTime; emit }\<close>.
\<close>

definition commitStart :: "layer \<Rightarrow> ref \<Rightarrow> real \<Rightarrow> layer" where
  "commitStart L g newTime =
     (let sg = segment (groups L g); s = segments L sg
      in if newTime \<noteq> startTime s
         then emit (L\<lparr>segments := (segments L)(sg := s\<lparr>startTime := newTime\<rparr>)\<rparr>)
                (SegmentsDragged g (Some True))
         else L)"

text \<open>
  Lines 1269 to 1272: the end handle's commit,
  \<^verbatim>\<open>if (newTime !== segment.startTime) { segment.endTime = newTime; emit }\<close>. The
  comparison is with \<^verbatim>\<open>segment.startTime\<close>, as the source has it.
\<close>

definition commitEnd :: "layer \<Rightarrow> ref \<Rightarrow> real \<Rightarrow> layer" where
  "commitEnd L g newTime =
     (let sg = segment (groups L g); s = segments L sg
      in if newTime \<noteq> startTime s
         then emit (L\<lparr>segments := (segments L)(sg := s\<lparr>endTime := newTime\<rparr>)\<rparr>)
                (SegmentsDragged g None)
         else L)"

text \<open>
  Lines 1225 to 1227: the candidate time of a dragged start handle, from the pointer
  position and the anchor \<^verbatim>\<open>mouseStartDiffX\<close>.
\<close>

definition startCandidate :: "layer \<Rightarrow> ref \<Rightarrow> real \<Rightarrow> real" where
  "startCandidate L g x =
     (let inOffset = viewFrameOffset L + x - mouseStartDiffX (startHandle (groups L g))
      in pixelsToTime (viewData L) inOffset)"

text \<open>Lines 1251 to 1253: the candidate time of a dragged end handle.\<close>

definition endCandidate :: "layer \<Rightarrow> ref \<Rightarrow> real \<Rightarrow> real" where
  "endCandidate L g x =
     (let outOffset = viewFrameOffset L + x + handleSize
                        - mouseStartDiffX (endHandle (groups L g))
      in pixelsToTime (viewData L) outOffset)"

text \<open>
  Lines 1225 to 1246, the body of \<^verbatim>\<open>if (x > 0)\<close> for a dragged start handle. The
  first argument stands for \<^verbatim>\<open>self._renderSegmentGroup\<close> in the nested call on the
  left neighbour. \<^verbatim>\<open>neighbours\<close> is \<^verbatim>\<open>undefined\<close> until a \<^verbatim>\<open>mousedown\<close> has
  captured it, and then \<^verbatim>\<open>neighbours.left\<close> throws a \<^verbatim>\<open>TypeError\<close>.
\<close>

definition dragStartHandle ::
  "(layer \<Rightarrow> ref \<Rightarrow> js_error + layer) \<Rightarrow> layer \<Rightarrow> ref \<Rightarrow> real \<Rightarrow> js_error + layer" where
  "dragStartHandle render L g x =
     (let newTime = startCandidate L g x
      in if newTime \<ge> endTime (segmentOf L g) - minSegmentDuration
         then Inr (commitStart L g (endTime (segmentOf L g) - minSegmentDuration))
         else
           (case neighbours (groups L g) of
              None \<Rightarrow> Inl TypeError
            | Some nb \<Rightarrow>
                (case left nb of
                   None \<Rightarrow> Inr (commitStart L g newTime)
                 | Some l \<Rightarrow>
                     if endTime (segmentOf L l) \<ge> newTime
                     then thenDo (render (setTouching L l True) l)
                            (\<lambda>L'. Inr (commitStart L' g (endTime (segmentOf L' l))))
                     else Inr (commitStart (setTouching L l False) g newTime))))"

text \<open>Lines 1251 to 1272, the body of \<^verbatim>\<open>if (x <= this._view.getWidth())\<close> for a dragged end handle.\<close>

definition dragEndHandle ::
  "(layer \<Rightarrow> ref \<Rightarrow> js_error + layer) \<Rightarrow> layer \<Rightarrow> ref \<Rightarrow> real \<Rightarrow> js_error + layer" where
  "dragEndHandle render L g x =
     (let newTime = endCandidate L g x
      in if newTime \<le> startTime (segmentOf L g) + minSegmentDuration
         then Inr (commitEnd L g (startTime (segmentOf L g) + minSegmentDuration))
         else
           (case neighbours (groups L g) of
              None \<Rightarrow> Inl TypeError
            | Some nb \<Rightarrow>
                (case right nb of
                   None \<Rightarrow> Inr (commitEnd L g newTime)
                 | Some r \<Rightarrow>
                     if startTime (segmentOf L r) \<le> newTime
                     then thenDo (render (setTouching L r True) r)
                            (\<lambda>L'. Inr (commitEnd L' g (startTime (segmentOf L' r))))
                     else Inr (commitEnd (setTouching L r False) g newTime))))"

text \<open>Lines 1223 to 1274: which handle, if any, the pass resolves a drag for.\<close>

definition resolveDrag ::
  "(layer \<Rightarrow> ref \<Rightarrow> js_error + layer) \<Rightarrow> layer \<Rightarrow> ref \<Rightarrow> js_error + layer" where
  "resolveDrag render L g =
     (let grp = groups L g
      in if h_isMouseDragging (startHandle grp)
         then (case mouseX L of
                 None \<Rightarrow> Inr L
               | Some x \<Rightarrow> if x > 0 then dragStartHandle render L g x else Inr L)
         else if h_isMouseDragging (endHandle grp)
         then (case mouseX L of
                 None \<Rightarrow> Inr L
               | Some x \<Rightarrow> if x \<le> viewWidth L then dragEndHandle render L g x else Inr L)
         else Inr L)"

text \<open>
  Lines 1276 to 1287: the highlight rectangle and the handles are placed from the
  segment's times and the frame offset.
\<close>

definition updateGeometry :: "layer \<Rightarrow> ref \<Rightarrow> layer" where
  "updateGeometry L g =
     (let segmentStartOffset = timeToPixels (viewData L) (startTime (segmentOf L g));
          segmentEndOffset = timeToPixels (viewData L) (endTime (segmentOf L g));
          startPixel = segmentStartOffset - viewFrameOffset L;
          endPixel = segmentEndOffset - viewFrameOffset L
      in updateGroup L g (\<lambda>grp. grp
           \<lparr>highlightRect := \<lparr>rect_x = startPixel, rect_width = endPixel - startPixel\<rparr>,
            startHandle := (startHandle grp)\<lparr>h_x := startPixel\<rparr>,
            endHandle := (endHandle grp)\<lparr>h_x := endPixel - handleSize\<rparr>\<rparr>))"

text \<open>The body of \<^verbatim>\<open>_renderSegmentGroup\<close>, with the nested call as its first argument.\<close>

definition renderBody ::
  "(layer \<Rightarrow> ref \<Rightarrow> js_error + layer) \<Rightarrow> layer \<Rightarrow> ref \<Rightarrow> js_error + layer" where
  "renderBody render L g = thenDo (resolveDrag render L g) (\<lambda>L'. Inr (updateGeometry L' g))"

text \<open>
  \<^verbatim>\<open>SegmentsLayer.prototype._renderSegmentGroup\<close>. It calls itself on a touched
  neighbour; the first argument bounds the depth of these calls, and a call beyond it
  is the \<^verbatim>\<open>RangeError\<close> of an exhausted call stack.
\<close>

primrec renderSegmentGroup :: "nat \<Rightarrow> layer \<Rightarrow> ref \<Rightarrow> js_error + layer" where
  "renderSegmentGroup 0 L g = Inl RangeError"
| "renderSegmentGroup (Suc n) L g = renderBody (renderSegmentGroup n) L g"

section \<open>Segments layer: hover events\<close>

text \<open>
  \<^verbatim>\<open>this._peaks.emit\<close> for the four hover events. The layer itself listens to each of
  them (\<^verbatim>\<open>_registerEventHandlers\<close>), and the emitter calls listeners at once: the
  group of the payload is rendered and the layer is drawn.
\<close>

definition emitHover :: "nat \<Rightarrow> layer \<Rightarrow> event \<Rightarrow> ref \<Rightarrow> js_error + layer" where
  "emitHover n L ev g = thenDo (renderSegmentGroup n (emit L ev) g) (\<lambda>L'. Inr (draw L'))"

text \<open>
  Lines 1062 and 1063 of \<^verbatim>\<open>segmentGroup.emitEvents\<close>:
  \<^verbatim>\<open>isMouseOver && (x > highlightRect.x() && x <= endPixel)\<close>.
\<close>

definition isSegmentMouseOver :: "layer \<Rightarrow> ref \<Rightarrow> bool" where
  "isSegmentMouseOver L g =
     (let hr = highlightRect (groups L g); endPixel = rect_x hr + rect_width hr
      in l_isMouseOver L \<and> pointerGt (mouseX L) (rect_x hr) \<and> pointerLe (mouseX L) endPixel)"

text \<open>
  Lines 1087 to 1090; \<open>b\<close>, \<open>x\<close> and \<open>y\<close> are the locals \<^verbatim>\<open>isSegmentMouseOver\<close>,
  \<^verbatim>\<open>x\<close> and \<^verbatim>\<open>y\<close>, set when \<^verbatim>\<open>emitEvents\<close> starts.
\<close>

definition isStartHandleMouseOver ::
  "layer \<Rightarrow> ref \<Rightarrow> bool \<Rightarrow> real option \<Rightarrow> real option \<Rightarrow> bool" where
  "isStartHandleMouseOver L g b x y =
     (let hr = highlightRect (groups L g)
      in b \<and> (pointerLe x (rect_x hr + 3) \<or>
               (pointerLe x (rect_x hr + handleSize) \<and> pointerLe y handleSize)))"

text \<open>Lines 1100 to 1103; \<open>endPixel\<close> is a local of \<^verbatim>\<open>emitEvents\<close> as well.\<close>

definition isEndHandleMouseOver :: "bool \<Rightarrow> real \<Rightarrow> real option \<Rightarrow> real option \<Rightarrow> bool" where
  "isEndHandleMouseOver b endPixel x y =
     (b \<and> (pointerGe x (endPixel - 3) \<or>
           (pointerGe x (endPixel - handleSize) \<and> pointerLe y handleSize)))"

text \<open>\<^verbatim>\<open>startHandle.isMouseOver = b\<close> and \<^verbatim>\<open>endHandle.isMouseOver = b\<close>.\<close>

definition setStartHover :: "layer \<Rightarrow> ref \<Rightarrow> bool \<Rightarrow> layer" where
  "setStartHover L g b =
     updateGroup L g (\<lambda>grp. grp\<lparr>startHandle := (startHandle grp)\<lparr>h_isMouseOver := Some b\<rparr>\<rparr>)"

definition setEndHover :: "layer \<Rightarrow> ref \<Rightarrow> bool \<Rightarrow> layer" where
  "setEndHover L g b =
     updateGroup L g (\<lambda>grp. grp\<lparr>endHandle := (endHandle grp)\<lparr>h_isMouseOver := Some b\<rparr>\<rparr>)"

text \<open>Lines 1065 to 1085: the body's hover state and its events.\<close>

definition bodyHover :: "nat \<Rightarrow> layer \<Rightarrow> ref \<Rightarrow> bool \<Rightarrow> js_error + layer" where
  "bodyHover n L g b =
     (if Some b \<noteq> isMouseOver (groups L g)
      then
        (let L1 = updateGroup L g (\<lambda>grp. grp\<lparr>isMouseOver := Some b\<rparr>)
         in if b then emitHover n L1 (SegmentGroupMouseEnter g) g
            else
              thenDo (emitHover n L1 (SegmentGroupMouseLeave g) g) (\<lambda>L2.
              thenDo (if h_isMouseOver (startHandle (groups L2 g)) = Some True
                      then emitHover n (setStartHover L2 g False)
                             (HandleMouseLeave g (Some True)) g
                      else Inr L2) (\<lambda>L3.
              if h_isMouseOver (endHandle (groups L3 g)) = Some True
              then emitHover n (setEndHover L3 g False) (HandleMouseLeave g None) g
              else Inr L3)))
      else Inr L)"

text \<open>Lines 1087 to 1099: the start handle's hover state and its event.\<close>

definition startHandleHover ::
  "nat \<Rightarrow> layer \<Rightarrow> ref \<Rightarrow> bool \<Rightarrow> real option \<Rightarrow> real option \<Rightarrow> js_error + layer" where
  "startHandleHover n L g b x y =
     (let over = isStartHandleMouseOver L g b x y
      in if Some over \<noteq> h_isMouseOver (startHandle (groups L g))
         then emitHover n (setStartHover L g over)
                ((if over then HandleMouseEnter else HandleMouseLeave) g (Some True)) g
         else Inr L)"

text \<open>Lines 1100 to 1113: the end handle's hover state and its event.\<close>

definition endHandleHover ::
  "nat \<Rightarrow> layer \<Rightarrow> ref \<Rightarrow> bool \<Rightarrow> real \<Rightarrow> real option \<Rightarrow> real option \<Rightarrow> js_error + layer" where
  "endHandleHover n L g b endPixel x y =
     (let over = isEndHandleMouseOver b endPixel x y
      in if Some over \<noteq> h_isMouseOver (endHandle (groups L g))
         then emitHover n (setEndHover L g over)
                ((if over then HandleMouseEnter else HandleMouseLeave) g (Some False)) g
         else Inr L)"

text \<open>
  \<^verbatim>\<open>segmentGroup.emitEvents\<close>. The pointer position, \<^verbatim>\<open>endPixel\<close> and
  \<^verbatim>\<open>isSegmentMouseOver\<close> are computed once, before any event;
  \<^verbatim>\<open>highlightRect.x()\<close> is read again for the start handle.
  \<^verbatim>\<open>highlightRectDistance\<close>, which only feeds the opacity, is left out.
\<close>

definition emitEvents :: "nat \<Rightarrow> layer \<Rightarrow> ref \<Rightarrow> js_error + layer" where
  "emitEvents n L g =
     (let x = mouseX L; y = mouseY L;
          hr = highlightRect (groups L g);
          endPixel = rect_x hr + rect_width hr;
          b = isSegmentMouseOver L g
      in thenDo (bodyHover n L g b) (\<lambda>L1.
         thenDo (startHandleHover n L1 g b x y) (\<lambda>L2.
         endHandleHover n L2 g b endPixel x y)))"

section \<open>Segments layer: the keys of the group registry\<close>

text \<open>
  \<^verbatim>\<open>this._segmentGroups\<close> is a plain object. \<^verbatim>\<open>Object.keys\<close> and \<^verbatim>\<open>for-in\<close> list its
  keys in the order of own property keys: first the keys that are array indices (the
  canonical decimal form of an integer below \<open>2^32 - 1\<close>) in ascending numeric order,
  then the other keys in the order in which they were created. The list
  \<open>segmentGroups\<close> of the state is in order of creation.
\<close>

definition digitOf :: "char \<Rightarrow> nat option" where
  "digitOf = map_of (zip ''0123456789'' [0, 1, 2, 3, 4, 5, 6, 7, 8, 9])"

fun decimal :: "nat \<Rightarrow> string \<Rightarrow> nat option" where
  "decimal acc [] = Some acc"
| "decimal acc (c # cs) =
     (case digitOf c of None \<Rightarrow> None | Some d \<Rightarrow> decimal (10 * acc + d) cs)"

definition arrayIndex :: "string \<Rightarrow> nat option" where
  "arrayIndex s =
     (if s = [] \<or> (hd s = CHR ''0'' \<and> tl s \<noteq> []) then None
      else (case decimal 0 s of
              None \<Rightarrow> None
            | Some n \<Rightarrow> if n < 2 ^ 32 - 1 then Some n else None))"

definition ownKeys :: "(string \<times> 'a) list \<Rightarrow> string list" where
  "ownKeys kvs =
     (let ks = map fst kvs
      in sort_key (\<lambda>k. the (arrayIndex k)) (filter (\<lambda>k. arrayIndex k \<noteq> None) ks)
         @ filter (\<lambda>k. arrayIndex k = None) ks)"

section \<open>Segments layer: pointer release\<close>

text \<open>Both handles' \<^verbatim>\<open>isMouseDragging = false\<close>.\<close>

definition releaseHandles :: "layer \<Rightarrow> ref \<Rightarrow> layer" where
  "releaseHandles L g =
     updateGroup L g (\<lambda>grp. grp
       \<lparr>startHandle := (startHandle grp)\<lparr>h_isMouseDragging := False\<rparr>,
        endHandle := (endHandle grp)\<lparr>h_isMouseDragging := False\<rparr>\<rparr>)"

text \<open>
  The loop of the window's \<^verbatim>\<open>mouseup\<close> listener over the keys that
  \<^verbatim>\<open>Object.keys(self._segmentGroups)\<close> returned.
\<close>

fun mouseupLoop :: "nat \<Rightarrow> layer \<Rightarrow> sid list \<Rightarrow> js_error + layer" where
  "mouseupLoop n L [] = Inr L"
| "mouseupLoop n L (k # ks) =
     (case map_of (segmentGroups L) k of
        None \<Rightarrow> Inl TypeError
      | Some g \<Rightarrow>
          (case (if h_isMouseDragging (startHandle (groups L g)) \<or>
                    h_isMouseDragging (endHandle (groups L g))
                 then thenDo (renderSegmentGroup n (releaseHandles L g) g) (\<lambda>L'. Inr (draw L'))
                 else Inr L) of
             Inl e \<Rightarrow> Inl e
           | Inr L1 \<Rightarrow>
               (case (if isSegmentTouching (groups L1 g)
                      then thenDo (renderSegmentGroup n (setTouching L1 g False) g)
                             (\<lambda>L'. Inr (draw L'))
                      else Inr L1) of
                  Inl e \<Rightarrow> Inl e
                | Inr L2 \<Rightarrow> mouseupLoop n L2 ks)))"

text \<open>The \<^verbatim>\<open>mouseup\<close> listener registered on \<^verbatim>\<open>window\<close>.\<close>

definition mouseup :: "nat \<Rightarrow> layer \<Rightarrow> js_error + layer" where
  "mouseup n L =
     mouseupLoop n (emit (L\<lparr>l_isMouseDragging := False\<rparr>) ZoomviewMouseUp)
       (ownKeys (segmentGroups L))"

section \<open>Segments layer: the visible segments\<close>

text \<open>
  \<^verbatim>\<open>_createSegmentGroup\<close>: a new group with nothing assigned yet, rendered once. A new
  \<^verbatim>\<open>Konva.Rect\<close> is at \<open>x = 0\<close> with width 0.
\<close>

definition newHandle :: handle where
  "newHandle = \<lparr>h_isMouseOver = None, h_isMouseDragging = False, mouseStartDiffX = 0, h_x = 0\<rparr>"

definition newSegmentGroup :: "sid \<Rightarrow> segmentGroup" where
  "newSegmentGroup sg =
     \<lparr>segment = sg, isMouseOver = None, isSegmentTouching = False, neighbours = None,
      highlightRect = \<lparr>rect_x = 0, rect_width = 0\<rparr>,
      startHandle = newHandle, endHandle = newHandle\<rparr>"

text \<open>The new group is an object of its own: it gets the next free address.\<close>

definition createSegmentGroup :: "nat \<Rightarrow> layer \<Rightarrow> sid \<Rightarrow> js_error + (ref \<times> layer)" where
  "createSegmentGroup n L sg =
     (let g = allocated L;
          L1 = L\<lparr>groups := (groups L)(g := newSegmentGroup sg), allocated := Suc g\<rparr>
      in thenDo (renderSegmentGroup n L1 g) (\<lambda>L2. Inr (g, L2)))"

text \<open>
  \<^verbatim>\<open>this._segmentGroups[segment.id] = segmentGroup\<close>: the value of an existing key is
  replaced where it is, a new key is created after the others.
\<close>

definition assign :: "(sid \<times> ref) list \<Rightarrow> sid \<Rightarrow> ref \<Rightarrow> (sid \<times> ref) list" where
  "assign kvs k v =
     (if k \<in> fst ` set kvs then map (\<lambda>(k', v'). if k' = k then (k', v) else (k', v')) kvs
      else kvs @ [(k, v)])"

text \<open>\<^verbatim>\<open>_addSegmentGroup\<close>.\<close>

definition addSegmentGroup :: "nat \<Rightarrow> layer \<Rightarrow> sid \<Rightarrow> js_error + (ref \<times> layer)" where
  "addSegmentGroup n L sg =
     thenDo (createSegmentGroup n L sg)
       (\<lambda>(g, L'). Inr (g, L'\<lparr>segmentGroups := assign (segmentGroups L') sg g\<rparr>))"

text \<open>\<^verbatim>\<open>_findOrAddSegmentGroup\<close>.\<close>

definition findOrAddSegmentGroup :: "nat \<Rightarrow> layer \<Rightarrow> sid \<Rightarrow> js_error + (ref \<times> layer)" where
  "findOrAddSegmentGroup n L sg =
     (case map_of (segmentGroups L) sg of
        Some g \<Rightarrow> Inr (g, L)
      | None \<Rightarrow> addSegmentGroup n L sg)"

text \<open>\<^verbatim>\<open>_removeSegment\<close>: the group leaves \<^verbatim>\<open>_segmentGroups\<close>.\<close>

definition removeSegment :: "layer \<Rightarrow> sid \<Rightarrow> layer" where
  "removeSegment L sg =
     (case map_of (segmentGroups L) sg of
        Some g \<Rightarrow> L\<lparr>segmentGroups := filter (\<lambda>(k, v). k \<noteq> sg) (segmentGroups L)\<rparr>
      | None \<Rightarrow> L)"

text \<open>
  The loop of \<^verbatim>\<open>_removeInvisibleSegments\<close>, over the keys the \<^verbatim>\<open>for-in\<close> statement
  started with; a key deleted before its turn is not visited. \<^verbatim>\<open>segment.isVisible\<close> is
  a method of the host's segment and is a parameter here.
\<close>

fun removeInvisibleLoop ::
  "(segment \<Rightarrow> real \<Rightarrow> real \<Rightarrow> bool) \<Rightarrow> real \<Rightarrow> real \<Rightarrow> layer \<Rightarrow> sid list \<Rightarrow> nat \<Rightarrow> nat \<times> layer" where
  "removeInvisibleLoop isVisible st et L [] count = (count, L)"
| "removeInvisibleLoop isVisible st et L (k # ks) count =
     (case map_of (segmentGroups L) k of
        None \<Rightarrow> removeInvisibleLoop isVisible st et L ks count
      | Some g \<Rightarrow>
          if \<not> isVisible (segmentOf L g) st et
          then removeInvisibleLoop isVisible st et (removeSegment L (segment (groups L g))) ks
                 (Suc count)
          else removeInvisibleLoop isVisible st et L ks count)"

text \<open>\<^verbatim>\<open>_removeInvisibleSegments\<close>: the number of removals and the state.\<close>

definition removeInvisibleSegments ::
  "(segment \<Rightarrow> real \<Rightarrow> real \<Rightarrow> bool) \<Rightarrow> layer \<Rightarrow> real \<Rightarrow> real \<Rightarrow> nat \<times> layer" where
  "removeInvisibleSegments isVisible L st et =
     removeInvisibleLoop isVisible st et L (ownKeys (segmentGroups L)) 0"

text \<open>The callback of \<^verbatim>\<open>segments.forEach\<close> in \<^verbatim>\<open>updateSegments\<close>, over the segments found.\<close>

fun forEachSegment :: "nat \<Rightarrow> layer \<Rightarrow> sid list \<Rightarrow> js_error + layer" where
  "forEachSegment n L [] = Inr L"
| "forEachSegment n L (sg # sgs) =
     (case findOrAddSegmentGroup n L sg of
        Inl e \<Rightarrow> Inl e
      | Inr (g, L1) \<Rightarrow>
          (case renderSegmentGroup n L1 g of
             Inl e \<Rightarrow> Inl e
           | Inr L2 \<Rightarrow>
               (case emitEvents n L2 g of
                  Inl e \<Rightarrow> Inl e
                | Inr L3 \<Rightarrow> forEachSegment n L3 sgs)))"

text \<open>
  \<^verbatim>\<open>SegmentsLayer.prototype.updateSegments\<close>. \<open>found\<close> is what
  \<^verbatim>\<open>this._peaks.segments.find(startTime, endTime)\<close> returned, by id. The result carries
  the local \<^verbatim>\<open>count\<close> next to the state.
\<close>

definition updateSegments ::
  "nat \<Rightarrow> (segment \<Rightarrow> real \<Rightarrow> real \<Rightarrow> bool) \<Rightarrow> sid list \<Rightarrow> layer \<Rightarrow> real \<Rightarrow> real
     \<Rightarrow> js_error + (nat \<times> layer)" where
  "updateSegments n isVisible found L st et =
     (let count = length found
      in thenDo (forEachSegment n (L\<lparr>visibleSegmentsCount := count\<rparr>) found) (\<lambda>L1.
           (let (removed, L2) = removeInvisibleSegments isVisible L1 st et;
                count' = count + removed
            in Inr (count', if count' > 0 then draw L2 else L2))))"

text \<open>The shapes of the group are where a render pass puts them.\<close>

definition inSync :: "layer \<Rightarrow> ref \<Rightarrow> bool" where
  "inSync L g =
     (let startPixel = timeToPixels (viewData L) (startTime (segmentOf L g)) - viewFrameOffset L;
          endPixel = timeToPixels (viewData L) (endTime (segmentOf L g)) - viewFrameOffset L;
          grp = groups L g
      in highlightRect grp = \<lparr>rect_x = startPixel, rect_width = endPixel - startPixel\<rparr> \<and>
         h_x (startHandle grp) = startPixel \<and>
         h_x (endHandle grp) = endPixel - handleSize)"

text \<open>
  The registry as the layer builds it: no key twice, every group registered under the
  id of its segment, and every registered group an object that has been created.
\<close>

definition registryKeyed :: "layer \<Rightarrow> bool" where
  "registryKeyed L =
     (distinct (map fst (segmentGroups L)) \<and>
      (\<forall>(k, g) \<in> set (segmentGroups L). segment (groups L g) = k \<and> g < allocated L))"

text \<open>
  Two states with the same registry, the same number of created groups and the same
  segment in every group.
\<close>

definition sameRegistry :: "layer \<Rightarrow> layer \<Rightarrow> bool" where
  "sameRegistry L L' =
     (segmentGroups L' = segmentGroups L \<and> allocated L' = allocated L \<and>
      (\<forall>r. segment (groups L' r) = segment (groups L r)))"

section \<open>Sequences of drag moves\<close>

text \<open>
  What the handlers may have changed for a group between two render passes: the
  pointer's \<open>x\<close> (\<^verbatim>\<open>mousemove\<close>), which handles are engaged and their anchors
  (\<^verbatim>\<open>mousedown\<close>, \<^verbatim>\<open>mouseup\<close>), and the frame offset of the view (scrolling).
\<close>

record dragInput =
  pointerX :: "real option"
  startDragging :: bool
  endDragging :: bool
  startAnchor :: real
  endAnchor :: real
  scrolledTo :: real

text \<open>The state with these inputs stored.\<close>

definition setDragInput :: "layer \<Rightarrow> ref \<Rightarrow> dragInput \<Rightarrow> layer" where
  "setDragInput L g p =
     (updateGroup L g (\<lambda>grp. grp
        \<lparr>startHandle := (startHandle grp)
           \<lparr>h_isMouseDragging := startDragging p, mouseStartDiffX := startAnchor p\<rparr>,
         endHandle := (endHandle grp)
           \<lparr>h_isMouseDragging := endDragging p, mouseStartDiffX := endAnchor p\<rparr>\<rparr>))
       \<lparr>mouseX := pointerX p, viewFrameOffset := scrolledTo p\<rparr>"

text \<open>One render pass of the group after each input.\<close>

fun dragMoves :: "nat \<Rightarrow> layer \<Rightarrow> ref \<Rightarrow> dragInput list \<Rightarrow> js_error + layer" where
  "dragMoves n L g [] = Inr L"
| "dragMoves n L g (p # ps) =
     (case renderSegmentGroup n (setDragInput L g p) g of
        Inl e \<Rightarrow> Inl e
      | Inr L' \<Rightarrow> dragMoves n L' g ps)"

text \<open>Neither handle of the group is engaged.\<close>

definition atRest :: "layer \<Rightarrow> ref \<Rightarrow> bool" where
  "atRest L g =
     (\<not> h_isMouseDragging (startHandle (groups L g)) \<and>
      \<not> h_isMouseDragging (endHandle (groups L g)))"

text \<open>
  The state in which the drag resolver keeps a segment apart from its neighbours: the
  segment lasts at least \<open>minSegmentDuration\<close>, its neighbours have been captured, and
  a captured neighbour is another segment, is at rest, and does not overlap the segment
  on its side.
\<close>

definition separated :: "layer \<Rightarrow> ref \<Rightarrow> bool" where
  "separated L g =
     (startTime (segmentOf L g) + minSegmentDuration \<le> endTime (segmentOf L g) \<and>
      (case neighbours (groups L g) of
         None \<Rightarrow> False
       | Some nb \<Rightarrow>
           (case left nb of
              None \<Rightarrow> True
            | Some l \<Rightarrow>
                segment (groups L l) \<noteq> segment (groups L g) \<and> atRest L l \<and>
                endTime (segmentOf L l) \<le> startTime (segmentOf L g)) \<and>
           (case right nb of
              None \<Rightarrow> True
            | Some r \<Rightarrow>
                segment (groups L r) \<noteq> segment (groups L g) \<and> atRest L r \<and>
                endTime (segmentOf L g) \<le> startTime (segmentOf L r))))"

section \<open>Example states\<close>

text \<open>
  One pixel is a hundredth of a second: \<open>pixelsToTime exampleData p = p / 100\<close>.
\<close>

definition exampleData :: adapter where
  "exampleData = \<lparr>sample_rate = 1000, scale = 10\<rparr>"

text \<open>
  The visibility test of the host's segment, as a stand-in for the parameter of
  \<open>updateSegments\<close>: the segment overlaps the time range.
\<close>

definition overlapsRange :: "segment \<Rightarrow> real \<Rightarrow> real \<Rightarrow> bool" where
  "overlapsRange s st et = (startTime s < et \<and> st < endTime s)"

text \<open>
  The group of a segment \<open>''b''\<close> whose neighbours have been captured: the group at
  address 0 on its left, none on its right. The flags say which handles a
  \<^verbatim>\<open>mousedown\<close> engaged; the anchors are chosen so that a pointer at pixel \<open>x\<close> gives
  the candidate time \<open>x / 100\<close> for either handle.
\<close>

definition engagedGroup :: "bool \<Rightarrow> bool \<Rightarrow> segmentGroup" where
  "engagedGroup startEngaged endEngaged =
     (newSegmentGroup ''b'')
       \<lparr>neighbours := Some \<lparr>left = Some 0, right = None\<rparr>,
        startHandle := newHandle\<lparr>h_isMouseDragging := startEngaged\<rparr>,
        endHandle := newHandle\<lparr>h_isMouseDragging := endEngaged, mouseStartDiffX := 16\<rparr>\<rparr>"

text \<open>
  A layer over a view of 1000 pixels at frame offset 0 with two segments: \<open>''a''\<close> with
  a new group at address 0, and \<open>''b''\<close> with the given group at address 1.
\<close>

definition exampleLayer ::
  "segment \<Rightarrow> segment \<Rightarrow> segmentGroup \<Rightarrow> real option \<Rightarrow> real option \<Rightarrow> layer" where
  "exampleLayer sa sb gb x y =
     \<lparr>segments = (\<lambda>_. sa)(''b'' := sb),
      groups = (\<lambda>_. newSegmentGroup ''a'')(1 := gb),
      segmentGroups = [(''a'', 0), (''b'', 1)],
      allocated = 2,
      mouseX = x, mouseY = y,
      l_isMouseDragging = True, l_isMouseOver = True,
      visibleSegmentsCount = 2,
      viewFrameOffset = 0, viewWidth = 1000, viewData = exampleData,
      emitted = [], draws = 0\<rparr>"

text \<open>A group after a hover pass with the pointer away from it.\<close>

definition notHovered :: "segmentGroup \<Rightarrow> segmentGroup" where
  "notHovered grp =
     grp\<lparr>isMouseOver := Some False,
         startHandle := (startHandle grp)\<lparr>h_isMouseOver := Some False\<rparr>,
         endHandle := (endHandle grp)\<lparr>h_isMouseOver := Some False\<rparr>\<rparr>"

section \<open>Round trip of the coordinate mapper\<close>




section \<open>Viewport updates\<close>

text \<open>
  For every argument other than NaN the stored frame offset is an integer of the range
  \<open>[0, pixelLength - width]\<close>, and it is 0 when the waveform is shorter than the view.
\<close>

lemma updateWaveform_in_range:
  assumes "x \<noteq> NaN" and "width v \<le> pixelLength v"
  shows "\<exists>k. frameOffset (updateWaveform v x) = Num (of_int k)
           \<and> 0 \<le> k \<and> k \<le> pixelLength v - width v"
proof (cases x)
  case (Num r)
  let ?k = "\<lfloor>r + 1 / 2\<rfloor>"
  let ?u = "pixelLength v - width v"
  have fo: "frameOffset (updateWaveform v x)
      = clamp (Num (of_int ?k)) (Num 0) (Num (of_int ?u))"
    using assms(2) Num by (simp add: updateWaveform_def)
  consider "?k < 0" | "0 \<le> ?k" "?u < ?k" | "0 \<le> ?k" "?k \<le> ?u" by linarith
  then show ?thesis
  proof cases
    case 1
    then have "frameOffset (updateWaveform v x) = Num (of_int 0)"
      unfolding fo by (simp add: clamp_def)
    then show ?thesis using assms(2) by (intro exI [of _ 0]) simp
  next
    case 2
    then have "frameOffset (updateWaveform v x) = Num (of_int ?u)"
      unfolding fo by (simp add: clamp_def js_gt_def)
    then show ?thesis using assms(2) by (intro exI [of _ ?u]) simp
  next
    case 3
    then have "frameOffset (updateWaveform v x) = Num (of_int ?k)"
      unfolding fo by (simp add: clamp_def js_gt_def)
    then show ?thesis using 3 by (intro exI [of _ ?k]) simp
  qed
next
  case PosInf
  then have "frameOffset (updateWaveform v x) = Num (of_int (pixelLength v - width v))"
    using assms(2) by (simp add: updateWaveform_def clamp_def js_gt_def)
  then show ?thesis using assms(2) by (intro exI [of _ "pixelLength v - width v"]) simp
next
  case NegInf
  then have "frameOffset (updateWaveform v x) = Num (of_int 0)"
    using assms(2) by (simp add: updateWaveform_def clamp_def js_gt_def)
  then show ?thesis using assms(2) by (intro exI [of _ 0]) simp
next
  case NaN
  with assms(1) show ?thesis by simp
qed

lemma updateWaveform_short_waveform:
  assumes "pixelLength v < width v" and "0 \<le> pixelLength v"
  shows "frameOffset (updateWaveform v x) = Num 0"
  using assms by (simp add: updateWaveform_def clamp_def js_gt_def)

text \<open>
  C9. After every call of \<^verbatim>\<open>_updateWaveform\<close> with a numeric frame offset the stored
  frame offset should be an integer of \<open>[0, pixelLength - width]\<close> when the waveform is
  at least as long as the view. NaN is a number (\<^verbatim>\<open>Utils.isNumber(NaN)\<close> holds), and
  with a waveform of 1000 pixels in a view of 100 pixels the call stores NaN:
  \<^verbatim>\<open>Math.round(NaN)\<close> is NaN and both comparisons of \<^verbatim>\<open>Utils.clamp\<close> are false.
\<close>

theorem C9_updateWaveform_stores_NaN:
  "isNumber (JSNumber NaN) \<and>
   frameOffset (updateWaveform
     \<lparr>pixelLength = 1000, width = 100, frameOffset = Num 0,
      amplitudeScale = JSNumber (Num 1)\<rparr> NaN) = NaN"
  by (simp add: updateWaveform_def clamp_def js_gt_def)

text \<open>
  C8 as stated: a viewport update that carries a non-finite offset is rejected and the
  last valid viewport is retained. It fails for \<^verbatim>\<open>_updateWaveform\<close>: with a waveform
  of 1000 pixels, a view of 100 pixels and frame offset 5, the offset
  \<^verbatim>\<open>Infinity\<close> is accepted and the frame offset becomes 900.
\<close>

theorem C8_infinite_offset_not_rejected:
  "\<not> Number_isFinite (JSNumber PosInf) \<and>
   frameOffset (updateWaveform
     \<lparr>pixelLength = 1000, width = 100, frameOffset = Num 5,
      amplitudeScale = JSNumber (Num 1)\<rparr> PosInf) = Num 900 \<and>
   frameOffset \<lparr>pixelLength = 1000, width = 100, frameOffset = Num 5,
      amplitudeScale = JSNumber (Num 1)\<rparr> = Num 5"
  by (simp add: updateWaveform_def clamp_def js_gt_def)

text \<open>
  C8, amended. \<^verbatim>\<open>setAmplitudeScale\<close> rejects every value that is not a finite number
  with one explicit \<^verbatim>\<open>Error\<close> and assigns nothing. \<^verbatim>\<open>_updateWaveform\<close> rejects
  nothing: an infinite frame offset is clamped, \<^verbatim>\<open>Infinity\<close> to the last possible
  position and \<^verbatim>\<open>-Infinity\<close> to 0 (when the waveform is at least as long as the
  view).
\<close>

theorem C8_amplitude_scale_rejected_offset_clamped:
  "(\<not> isNumber s \<or> \<not> Number_isFinite s \<longrightarrow>
      setAmplitudeScale v s
        = Inl (Error ''view.setAmplitudeScale(): Scale must be a valid number'')) \<and>
   (width v \<le> pixelLength v \<longrightarrow>
      frameOffset (updateWaveform v PosInf) = Num (of_int (pixelLength v - width v)) \<and>
      frameOffset (updateWaveform v NegInf) = Num 0)"
  by (simp add: setAmplitudeScale_def updateWaveform_def clamp_def js_gt_def)

theorem C8_amended_witness:
  "\<not> Number_isFinite (JSNumber NaN) \<and>
   setAmplitudeScale \<lparr>pixelLength = 1000, width = 100, frameOffset = Num 5,
       amplitudeScale = JSNumber (Num 1)\<rparr> (JSNumber NaN)
     = Inl (Error ''view.setAmplitudeScale(): Scale must be a valid number'') \<and>
   frameOffset (updateWaveform \<lparr>pixelLength = 1000, width = 100, frameOffset = Num 5,
       amplitudeScale = JSNumber (Num 1)\<rparr> PosInf) = Num 900 \<and>
   frameOffset (updateWaveform \<lparr>pixelLength = 1000, width = 100, frameOffset = Num 5,
       amplitudeScale = JSNumber (Num 1)\<rparr> NegInf) = Num 0"
  using C8_amplitude_scale_rejected_offset_clamped
    [of "JSNumber NaN" "\<lparr>pixelLength = 1000, width = 100, frameOffset = Num 5,
       amplitudeScale = JSNumber (Num 1)\<rparr>"]
  by simp

section \<open>Basic facts about the layer operations\<close>

lemma thenDo_simps [simp]:
  "thenDo (Inl e) f = Inl e" "thenDo (Inr a) f = f a"
  by (simp_all add: thenDo_def)

lemmas example_defs = exampleLayer_def engagedGroup_def exampleData_def newSegmentGroup_def
  newHandle_def

lemmas render_defs = renderBody_def resolveDrag_def dragStartHandle_def dragEndHandle_def
  startCandidate_def endCandidate_def commitStart_def commitEnd_def updateGeometry_def updateGroup_def setTouching_def
  segmentOf_def emit_def draw_def pixelsToTime_def timeToPixels_def minSegmentDuration_def
  handleSize_def

lemma updateGeometry_fields [simp]:
  "segments (updateGeometry L g) = segments L"
  "emitted (updateGeometry L g) = emitted L"
  "draws (updateGeometry L g) = draws L"
  "segmentGroups (updateGeometry L g) = segmentGroups L"
  "mouseX (updateGeometry L g) = mouseX L"
  "mouseY (updateGeometry L g) = mouseY L"
  "l_isMouseOver (updateGeometry L g) = l_isMouseOver L"
  "viewData (updateGeometry L g) = viewData L"
  "viewFrameOffset (updateGeometry L g) = viewFrameOffset L"
  "viewWidth (updateGeometry L g) = viewWidth L"
  by (simp_all add: updateGeometry_def updateGroup_def Let_def)

lemma updateGeometry_groups:
  "groups (updateGeometry L g) r =
     (if r = g
      then (groups L g)
        \<lparr>highlightRect :=
           \<lparr>rect_x = timeToPixels (viewData L) (startTime (segmentOf L g)) - viewFrameOffset L,
            rect_width = timeToPixels (viewData L) (endTime (segmentOf L g))
              - timeToPixels (viewData L) (startTime (segmentOf L g))\<rparr>,
         startHandle := (startHandle (groups L g))
           \<lparr>h_x := timeToPixels (viewData L) (startTime (segmentOf L g)) - viewFrameOffset L\<rparr>,
         endHandle := (endHandle (groups L g))
           \<lparr>h_x := timeToPixels (viewData L) (endTime (segmentOf L g)) - viewFrameOffset L
              - handleSize\<rparr>\<rparr>
      else groups L r)"
  by (simp add: updateGeometry_def updateGroup_def Let_def)

lemma updateGeometry_group_fields [simp]:
  "segment (groups (updateGeometry L g) r) = segment (groups L r)"
  "isMouseOver (groups (updateGeometry L g) r) = isMouseOver (groups L r)"
  "isSegmentTouching (groups (updateGeometry L g) r) = isSegmentTouching (groups L r)"
  "neighbours (groups (updateGeometry L g) r) = neighbours (groups L r)"
  "h_isMouseOver (startHandle (groups (updateGeometry L g) r)) = h_isMouseOver (startHandle (groups L r))"
  "h_isMouseOver (endHandle (groups (updateGeometry L g) r)) = h_isMouseOver (endHandle (groups L r))"
  "h_isMouseDragging (startHandle (groups (updateGeometry L g) r)) = h_isMouseDragging (startHandle (groups L r))"
  "h_isMouseDragging (endHandle (groups (updateGeometry L g) r)) = h_isMouseDragging (endHandle (groups L r))"
  "mouseStartDiffX (startHandle (groups (updateGeometry L g) r)) = mouseStartDiffX (startHandle (groups L r))"
  "mouseStartDiffX (endHandle (groups (updateGeometry L g) r)) = mouseStartDiffX (endHandle (groups L r))"
  by (simp_all add: updateGeometry_groups)

lemma segmentOf_updateGeometry [simp]:
  "segmentOf (updateGeometry L g) r = segmentOf L r"
  by (simp add: segmentOf_def)

text \<open>A pass over a group none of whose handles is dragged only places its shapes.\<close>

lemma render_not_dragging:
  assumes "\<not> h_isMouseDragging (startHandle (groups L g))"
    and "\<not> h_isMouseDragging (endHandle (groups L g))"
  shows "renderSegmentGroup (Suc n) L g = Inr (updateGeometry L g)"
  using assms by (simp add: renderBody_def resolveDrag_def)


lemma setTouching_fields [simp]:
  "segments (setTouching L g b) = segments L"
  "emitted (setTouching L g b) = emitted L"
  "draws (setTouching L g b) = draws L"
  "segmentGroups (setTouching L g b) = segmentGroups L"
  "mouseX (setTouching L g b) = mouseX L"
  "viewData (setTouching L g b) = viewData L"
  "viewFrameOffset (setTouching L g b) = viewFrameOffset L"
  "viewWidth (setTouching L g b) = viewWidth L"
  by (simp_all add: setTouching_def updateGroup_def)

lemma setTouching_group_fields [simp]:
  "segment (groups (setTouching L g b) r) = segment (groups L r)"
  "neighbours (groups (setTouching L g b) r) = neighbours (groups L r)"
  "startHandle (groups (setTouching L g b) r) = startHandle (groups L r)"
  "endHandle (groups (setTouching L g b) r) = endHandle (groups L r)"
  "isSegmentTouching (groups (setTouching L g b) r)
     = (if r = g then b else isSegmentTouching (groups L r))"
  by (simp_all add: setTouching_def updateGroup_def)

lemma segmentOf_setTouching [simp]:
  "segmentOf (setTouching L g b) r = segmentOf L r"
  by (simp add: segmentOf_def)

lemma releaseHandles_fields [simp]:
  "segmentGroups (releaseHandles L g) = segmentGroups L"
  "h_isMouseDragging (startHandle (groups (releaseHandles L g) r))
     = (r \<noteq> g \<and> h_isMouseDragging (startHandle (groups L r)))"
  "h_isMouseDragging (endHandle (groups (releaseHandles L g) r))
     = (r \<noteq> g \<and> h_isMouseDragging (endHandle (groups L r)))"
  "isSegmentTouching (groups (releaseHandles L g) r) = isSegmentTouching (groups L r)"
  by (simp_all add: releaseHandles_def updateGroup_def)

lemma draw_fields [simp]:
  "segmentGroups (draw L) = segmentGroups L"
  "groups (draw L) = groups L"
  "segments (draw L) = segments L"
  "emitted (draw L) = emitted L"
  "draws (draw L) = Suc (draws L)"
  by (simp_all add: draw_def)

lemma emit_fields [simp]:
  "segmentGroups (emit L ev) = segmentGroups L"
  "groups (emit L ev) = groups L"
  "segments (emit L ev) = segments L"
  "emitted (emit L ev) = emitted L @ [ev]"
  "draws (emit L ev) = draws L"
  "mouseX (emit L ev) = mouseX L"
  "mouseY (emit L ev) = mouseY L"
  "l_isMouseOver (emit L ev) = l_isMouseOver L"
  "viewData (emit L ev) = viewData L"
  "viewFrameOffset (emit L ev) = viewFrameOffset L"
  "viewWidth (emit L ev) = viewWidth L"
  by (simp_all add: emit_def)

lemma commitStart_fields [simp]:
  "groups (commitStart L g t) = groups L"
  "segmentGroups (commitStart L g t) = segmentGroups L"
  "draws (commitStart L g t) = draws L"
  "mouseX (commitStart L g t) = mouseX L"
  "viewData (commitStart L g t) = viewData L"
  "viewFrameOffset (commitStart L g t) = viewFrameOffset L"
  "viewWidth (commitStart L g t) = viewWidth L"
  by (simp_all add: commitStart_def Let_def)

lemma commitEnd_fields [simp]:
  "groups (commitEnd L g t) = groups L"
  "segmentGroups (commitEnd L g t) = segmentGroups L"
  "draws (commitEnd L g t) = draws L"
  "mouseX (commitEnd L g t) = mouseX L"
  "viewData (commitEnd L g t) = viewData L"
  "viewFrameOffset (commitEnd L g t) = viewFrameOffset L"
  "viewWidth (commitEnd L g t) = viewWidth L"
  by (simp_all add: commitEnd_def Let_def)

lemma commitStart_segments:
  "segments (commitStart L g t)
     = (segments L)(segment (groups L g) := (segmentOf L g)\<lparr>startTime := t\<rparr>)"
  by (auto simp: commitStart_def segmentOf_def Let_def)


lemma segmentOf_commitStart_same [simp]:
  "startTime (segmentOf (commitStart L g t) g) = t"
  "endTime (segmentOf (commitStart L g t) g) = endTime (segmentOf L g)"
  by (simp_all add: segmentOf_def commitStart_segments)

declare renderSegmentGroup.simps [simp del]

section \<open>The pointer outside the view during a drag\<close>

text \<open>
  C10 as stated, second half: with the end handle dragged and the pointer beyond the
  view's width no drag event is emitted. A \<^verbatim>\<open>mousedown\<close> engages every hovered handle;
  with both handles of a segment from 1 s to 2 s engaged and the pointer at pixel 1500
  of a view 1000 pixels wide, the pass takes the start handle's branch, moves the start
  to 1.8 s and emits \<^verbatim>\<open>segments.dragged\<close>.
\<close>

theorem C10_counterexample_both_handles:
  "h_isMouseDragging (endHandle (groups
      (exampleLayer \<lparr>startTime = 0, endTime = 1 / 2\<rparr> \<lparr>startTime = 1, endTime = 2\<rparr>
         (engagedGroup True True) (Some 1500) (Some 5)) 1)) \<and>
   pointerGt (mouseX (exampleLayer \<lparr>startTime = 0, endTime = 1 / 2\<rparr> \<lparr>startTime = 1, endTime = 2\<rparr>
         (engagedGroup True True) (Some 1500) (Some 5)))
     (viewWidth (exampleLayer \<lparr>startTime = 0, endTime = 1 / 2\<rparr> \<lparr>startTime = 1, endTime = 2\<rparr>
         (engagedGroup True True) (Some 1500) (Some 5))) \<and>
   (\<exists>L'. renderSegmentGroup 1
       (exampleLayer \<lparr>startTime = 0, endTime = 1 / 2\<rparr> \<lparr>startTime = 1, endTime = 2\<rparr>
         (engagedGroup True True) (Some 1500) (Some 5)) 1 = Inr L' \<and>
      emitted L' = [SegmentsDragged 1 (Some True)] \<and>
      startTime (segmentOf L' 1) = 18 / 10)"
  by (simp add: example_defs render_defs renderSegmentGroup.simps pointerGt_def Let_def)

text \<open>
  C10, amended. In a render pass with the start handle dragged and the pointer's \<open>x\<close>
  not above 0 (or not yet known), no segment changes and no event is emitted. The same
  holds with the end handle dragged, the start handle not dragged, and the pointer's
  \<open>x\<close> beyond the view's width.
\<close>

theorem C10_pointer_outside_no_commit:
  "(h_isMouseDragging (startHandle (groups L g)) \<and> \<not> pointerGt (mouseX L) 0 \<longrightarrow>
      (\<exists>L'. renderSegmentGroup (Suc n) L g = Inr L' \<and>
            segments L' = segments L \<and> emitted L' = emitted L)) \<and>
   (\<not> h_isMouseDragging (startHandle (groups L g)) \<and>
    h_isMouseDragging (endHandle (groups L g)) \<and> pointerGt (mouseX L) (viewWidth L) \<longrightarrow>
      (\<exists>L'. renderSegmentGroup (Suc n) L g = Inr L' \<and>
            segments L' = segments L \<and> emitted L' = emitted L))"
  by (auto simp: renderSegmentGroup.simps renderBody_def resolveDrag_def pointerGt_def
      split: option.splits)

theorem C10_witness:
  "(\<exists>L'. renderSegmentGroup 1
       (exampleLayer \<lparr>startTime = 0, endTime = 1 / 2\<rparr> \<lparr>startTime = 1, endTime = 2\<rparr>
         (engagedGroup True False) (Some (- 3)) (Some 5)) 1 = Inr L' \<and>
      segments L' = segments (exampleLayer \<lparr>startTime = 0, endTime = 1 / 2\<rparr>
         \<lparr>startTime = 1, endTime = 2\<rparr> (engagedGroup True False) (Some (- 3)) (Some 5)) \<and>
      emitted L' = []) \<and>
   (\<exists>L'. renderSegmentGroup 1
       (exampleLayer \<lparr>startTime = 0, endTime = 1 / 2\<rparr> \<lparr>startTime = 1, endTime = 2\<rparr>
         (engagedGroup False True) (Some 1500) (Some 5)) 1 = Inr L' \<and>
      segments L' = segments (exampleLayer \<lparr>startTime = 0, endTime = 1 / 2\<rparr>
         \<lparr>startTime = 1, endTime = 2\<rparr> (engagedGroup False True) (Some 1500) (Some 5)) \<and>
      emitted L' = [])"
  using C10_pointer_outside_no_commit
      [of "exampleLayer \<lparr>startTime = 0, endTime = 1 / 2\<rparr> \<lparr>startTime = 1, endTime = 2\<rparr>
         (engagedGroup True False) (Some (- 3)) (Some 5)" 1 0]
    C10_pointer_outside_no_commit
      [of "exampleLayer \<lparr>startTime = 0, endTime = 1 / 2\<rparr> \<lparr>startTime = 1, endTime = 2\<rparr>
         (engagedGroup False True) (Some 1500) (Some 5)" 1 0]
  by (simp add: example_defs pointerGt_def)

section \<open>Commit of a dragged boundary\<close>

text \<open>
  C2. A drag move commits, and emits \<^verbatim>\<open>segments.dragged\<close>, only if the clamped
  candidate differs from the dragged boundary. The end handle's branch compares the
  candidate with \<^verbatim>\<open>segment.startTime\<close>: for a segment from 1 s to 2 s whose end handle
  is dragged with the pointer at pixel 200, the candidate is 2 s, the end time it
  already has, and the pass assigns it again and emits the event.
\<close>

theorem C2_end_handle_commits_unchanged_time:
  "\<exists>L'. renderSegmentGroup 1
       (exampleLayer \<lparr>startTime = 0, endTime = 1 / 2\<rparr> \<lparr>startTime = 1, endTime = 2\<rparr>
         (engagedGroup False True) (Some 200) (Some 5)) 1 = Inr L' \<and>
      endTime (segmentOf (exampleLayer \<lparr>startTime = 0, endTime = 1 / 2\<rparr>
         \<lparr>startTime = 1, endTime = 2\<rparr> (engagedGroup False True) (Some 200) (Some 5)) 1) = 2 \<and>
      endTime (segmentOf L' 1) = 2 \<and>
      emitted L' = [SegmentsDragged 1 None]"
  by (simp add: example_defs render_defs renderSegmentGroup.simps Let_def)

section \<open>Pointer release clears the touching flags\<close>

lemma set_ownKeys: "set (ownKeys kvs) = fst ` set kvs"
  by (auto simp: ownKeys_def Let_def)

lemma distinct_ownKeys: "distinct (map fst kvs) \<Longrightarrow> distinct (ownKeys kvs)"
  by (auto simp: ownKeys_def Let_def distinct_map_filter)

lemma mouseupLoop_clears:
  assumes "set ks \<subseteq> fst ` set (segmentGroups L)"
  shows "\<exists>L'. mouseupLoop (Suc n) L ks = Inr L' \<and> segmentGroups L' = segmentGroups L \<and>
           (\<forall>r. isSegmentTouching (groups L' r) \<longrightarrow>
                  isSegmentTouching (groups L r) \<and>
                  (\<forall>k \<in> set ks. map_of (segmentGroups L) k \<noteq> Some r))"
  using assms
proof (induction ks arbitrary: L)
  case Nil
  then show ?case by simp
next
  case (Cons k ks)
  from Cons.prems have "k \<in> fst ` set (segmentGroups L)" by simp
  then obtain g where g: "map_of (segmentGroups L) k = Some g"
    by (cases "map_of (segmentGroups L) k") (auto simp: map_of_eq_None_iff)
  define L1 where "L1 =
    (if h_isMouseDragging (startHandle (groups L g)) \<or> h_isMouseDragging (endHandle (groups L g))
     then draw (updateGeometry (releaseHandles L g) g) else L)"
  have step1: "(if h_isMouseDragging (startHandle (groups L g)) \<or>
                   h_isMouseDragging (endHandle (groups L g))
                then thenDo (renderSegmentGroup (Suc n) (releaseHandles L g) g) (\<lambda>L'. Inr (draw L'))
                else Inr L) = Inr L1"
    by (simp add: L1_def render_not_dragging)
  have L1_reg: "segmentGroups L1 = segmentGroups L" by (simp add: L1_def)
  have L1_rest: "\<not> h_isMouseDragging (startHandle (groups L1 g))"
    "\<not> h_isMouseDragging (endHandle (groups L1 g))"
    by (simp_all add: L1_def)
  have L1_touch: "isSegmentTouching (groups L1 r) = isSegmentTouching (groups L r)" for r
    by (simp add: L1_def)
  define L2 where "L2 =
    (if isSegmentTouching (groups L1 g)
     then draw (updateGeometry (setTouching L1 g False) g) else L1)"
  have step2: "(if isSegmentTouching (groups L1 g)
                then thenDo (renderSegmentGroup (Suc n) (setTouching L1 g False) g)
                       (\<lambda>L'. Inr (draw L'))
                else Inr L1) = Inr L2"
    using L1_rest by (simp add: L2_def render_not_dragging)
  have L2_reg: "segmentGroups L2 = segmentGroups L" by (simp add: L2_def L1_reg)
  have L2_touch: "isSegmentTouching (groups L2 r) \<longrightarrow> isSegmentTouching (groups L r) \<and> r \<noteq> g"
    for r
    by (auto simp: L2_def L1_touch split: if_splits)
  have "set ks \<subseteq> fst ` set (segmentGroups L2)"
    using Cons.prems by (simp add: L2_reg)
  from Cons.IH [OF this] obtain L' where
    L': "mouseupLoop (Suc n) L2 ks = Inr L'" "segmentGroups L' = segmentGroups L2"
      "\<forall>r. isSegmentTouching (groups L' r) \<longrightarrow>
             isSegmentTouching (groups L2 r) \<and>
             (\<forall>k \<in> set ks. map_of (segmentGroups L2) k \<noteq> Some r)"
    by blast
  have "mouseupLoop (Suc n) L (k # ks) = Inr L'"
    using g step1 step2 L'(1) by simp
  moreover have "segmentGroups L' = segmentGroups L"
    using L'(2) L2_reg by simp
  moreover have "\<forall>r. isSegmentTouching (groups L' r) \<longrightarrow>
      isSegmentTouching (groups L r) \<and>
      (\<forall>k' \<in> set (k # ks). map_of (segmentGroups L) k' \<noteq> Some r)"
    using L'(3) L2_touch g by (auto simp: L2_reg)
  ultimately show ?case by blast
qed

lemma mouseup_clears:
  "\<exists>L'. mouseup (Suc n) L = Inr L' \<and>
     (\<forall>k r. map_of (segmentGroups L') k = Some r \<longrightarrow> \<not> isSegmentTouching (groups L' r))"
proof -
  let ?L0 = "emit (L\<lparr>l_isMouseDragging := False\<rparr>) ZoomviewMouseUp"
  have "set (ownKeys (segmentGroups L)) \<subseteq> fst ` set (segmentGroups ?L0)"
    by (simp add: set_ownKeys)
  from mouseupLoop_clears [OF this, of n] obtain L' where
    L': "mouseupLoop (Suc n) ?L0 (ownKeys (segmentGroups L)) = Inr L'"
      "segmentGroups L' = segmentGroups ?L0"
      "\<forall>r. isSegmentTouching (groups L' r) \<longrightarrow>
             isSegmentTouching (groups ?L0 r) \<and>
             (\<forall>k \<in> set (ownKeys (segmentGroups L)). map_of (segmentGroups ?L0) k \<noteq> Some r)"
    by blast
  have reg0: "segmentGroups ?L0 = segmentGroups L" by simp
  have "\<not> isSegmentTouching (groups L' r)" if "map_of (segmentGroups L') k = Some r" for k r
  proof
    assume "isSegmentTouching (groups L' r)"
    with L'(3) have no: "\<forall>k \<in> set (ownKeys (segmentGroups L)). map_of (segmentGroups L) k \<noteq> Some r"
      unfolding reg0 by blast
    from that have k: "map_of (segmentGroups L) k = Some r"
      using L'(2) reg0 by simp
    then have "k \<in> fst ` set (segmentGroups L)"
      by (metis map_of_eq_None_iff option.distinct(1))
    then have "k \<in> set (ownKeys (segmentGroups L))"
      by (simp add: set_ownKeys)
    with no k show False by blast
  qed
  with L'(1) show ?thesis by (auto simp: mouseup_def)
qed

section \<open>A start handle pushed against the left neighbour\<close>

lemma dragStartHandle_touch:
  assumes "neighbours (groups L g) = Some nb" and "left nb = Some l"
    and "atRest L l"
    and "startCandidate L g x < endTime (segmentOf L g) - minSegmentDuration"
    and "startCandidate L g x \<le> endTime (segmentOf L l)"
  shows "dragStartHandle (renderSegmentGroup (Suc n)) L g x
     = Inr (commitStart (updateGeometry (setTouching L l True) l) g (endTime (segmentOf L l)))"
proof -
  have "atRest (setTouching L l True) l"
    using assms(3) by (simp add: atRest_def)
  then have "renderSegmentGroup (Suc n) (setTouching L l True) l
      = Inr (updateGeometry (setTouching L l True) l)"
    by (simp add: atRest_def render_not_dragging)
  then show ?thesis
    using assms by (simp add: dragStartHandle_def Let_def)
qed

text \<open>
  C3 as stated: whenever the left neighbour's end is at or past the candidate, the
  start time becomes the neighbour's end and the neighbour is marked as touching. The
  minimum duration is checked first and then the neighbour is not looked at: for a
  segment from 1 s to 1.1 s with a neighbour ending at 1 s and the candidate 0.95 s,
  the start moves to 0.9 s and the neighbour is not marked.
\<close>

theorem C3_counterexample_minimum_duration_first:
  "startCandidate (exampleLayer \<lparr>startTime = 1 / 2, endTime = 1\<rparr>
       \<lparr>startTime = 1, endTime = 11 / 10\<rparr> (engagedGroup True False) (Some 95) (Some 5)) 1 95
     \<le> endTime (segmentOf (exampleLayer \<lparr>startTime = 1 / 2, endTime = 1\<rparr>
       \<lparr>startTime = 1, endTime = 11 / 10\<rparr> (engagedGroup True False) (Some 95) (Some 5)) 0) \<and>
   (\<exists>L'. renderSegmentGroup 2 (exampleLayer \<lparr>startTime = 1 / 2, endTime = 1\<rparr>
       \<lparr>startTime = 1, endTime = 11 / 10\<rparr> (engagedGroup True False) (Some 95) (Some 5)) 1
       = Inr L' \<and>
      startTime (segmentOf L' 1) = 9 / 10 \<and> endTime (segmentOf L' 0) = 1 \<and>
      \<not> isSegmentTouching (groups L' 0))"
  by (simp add: example_defs render_defs renderSegmentGroup.simps numeral_2_eq_2 Let_def)

text \<open>
  C3, amended. For a start handle dragged with the pointer's \<open>x\<close> above 0, a candidate
  below \<open>endTime - minSegmentDuration\<close> and at or before the end of the captured left
  neighbour (which is at rest): after the pass the start time is the neighbour's end
  time and the neighbour's \<^verbatim>\<open>isSegmentTouching\<close> is set; the following \<^verbatim>\<open>mouseup\<close>
  returns and leaves \<^verbatim>\<open>isSegmentTouching\<close> cleared in every group of
  \<^verbatim>\<open>_segmentGroups\<close>.
\<close>

theorem C3_touching_set_and_cleared:
  assumes "sample_rate (viewData L) \<noteq> 0"
    and "h_isMouseDragging (startHandle (groups L g))"
    and "mouseX L = Some x" and "0 < x"
    and "neighbours (groups L g) = Some nb" and "left nb = Some l"
    and "atRest L l"
    and "startCandidate L g x < endTime (segmentOf L g) - minSegmentDuration"
    and "startCandidate L g x \<le> endTime (segmentOf L l)"
  shows "\<exists>L'. renderSegmentGroup (Suc (Suc n)) L g = Inr L' \<and>
           startTime (segmentOf L' g) = endTime (segmentOf L l) \<and>
           isSegmentTouching (groups L' l) \<and>
           (\<exists>L''. mouseup (Suc m) L' = Inr L'' \<and>
              (\<forall>k r. map_of (segmentGroups L'') k = Some r \<longrightarrow>
                     \<not> isSegmentTouching (groups L'' r)))"
proof -
  let ?L1 = "commitStart (updateGeometry (setTouching L l True) l) g (endTime (segmentOf L l))"
  let ?L' = "updateGeometry ?L1 g"
  have "resolveDrag (renderSegmentGroup (Suc n)) L g = Inr ?L1"
    using assms(2-4) dragStartHandle_touch [OF assms(5-9), of n]
    by (simp add: resolveDrag_def)
  then have run: "renderSegmentGroup (Suc (Suc n)) L g = Inr ?L'"
    by (simp add: renderSegmentGroup.simps renderBody_def)
  have st: "startTime (segmentOf ?L' g) = endTime (segmentOf L l)"
    by simp
  have touch: "isSegmentTouching (groups ?L' l)"
    by simp
  from mouseup_clears [of m ?L'] run st touch show ?thesis
    by blast
qed

theorem C3_witness:
  "\<exists>L'. renderSegmentGroup 2 (exampleLayer \<lparr>startTime = 1 / 2, endTime = 1\<rparr>
       \<lparr>startTime = 12 / 10, endTime = 2\<rparr> (engagedGroup True False) (Some 80) (Some 5)) 1
       = Inr L' \<and>
     startTime (segmentOf L' 1) = 1 \<and> isSegmentTouching (groups L' 0) \<and>
     (\<exists>L''. mouseup 1 L' = Inr L'' \<and>
        (\<forall>k r. map_of (segmentGroups L'') k = Some r \<longrightarrow> \<not> isSegmentTouching (groups L'' r)))"
  using C3_touching_set_and_cleared
    [of "exampleLayer \<lparr>startTime = 1 / 2, endTime = 1\<rparr>
       \<lparr>startTime = 12 / 10, endTime = 2\<rparr> (engagedGroup True False) (Some 80) (Some 5)"
     1 80 "\<lparr>left = Some 0, right = None\<rparr>" 0 0 0]
  by (simp add: example_defs atRest_def startCandidate_def segmentOf_def pixelsToTime_def
      minSegmentDuration_def numeral_2_eq_2)

section \<open>The drag resolver keeps a separated segment separated\<close>



lemma atRest_simps [simp]:
  "atRest (updateGeometry L g) r = atRest L r"
  "atRest (setTouching L g b) r = atRest L r"
  "atRest (commitStart L g t) r = atRest L r"
  "atRest (commitEnd L g t) r = atRest L r"
  by (simp_all add: atRest_def)

lemma separated_updateGeometry [simp]:
  "separated (updateGeometry L r) g = separated L g"
  by (simp add: separated_def split: option.splits)

lemma separated_setTouching [simp]:
  "separated (setTouching L r b) g = separated L g"
  by (simp add: separated_def split: option.splits)










text \<open>
  A captured neighbour that overlaps the segment can even invert it: the start of a
  segment from 1 s to 3 s is clamped to the end, 4 s, of its left neighbour.
\<close>

lemma drag_against_overlapping_neighbour_inverts:
  "\<exists>L'. dragMoves 2 (exampleLayer \<lparr>startTime = 1 / 2, endTime = 4\<rparr>
       \<lparr>startTime = 1, endTime = 3\<rparr> (engagedGroup False False) None None) 1
       [\<lparr>pointerX = Some 80, startDragging = True, endDragging = False,
         startAnchor = 0, endAnchor = 16, scrolledTo = 0\<rparr>] = Inr L' \<and>
      startTime (segmentOf L' 1) = 4 \<and> endTime (segmentOf L' 1) = 3"
  by (simp add: example_defs render_defs setDragInput_def renderSegmentGroup.simps
      numeral_2_eq_2 Let_def)



section \<open>Hover events of a new group\<close>

lemmas hover_defs = emitEvents_def bodyHover_def startHandleHover_def endHandleHover_def
  emitHover_def isSegmentMouseOver_def isStartHandleMouseOver_def isEndHandleMouseOver_def
  setStartHover_def setEndHover_def pointerGt_def pointerLe_def pointerGe_def

lemmas update_defs = updateSegments_def findOrAddSegmentGroup_def addSegmentGroup_def
  createSegmentGroup_def assign_def removeInvisibleSegments_def removeSegment_def
  overlapsRange_def notHovered_def ownKeys_def arrayIndex_def digitOf_def

text \<open>
  C5. A hover event is emitted only on a change of the hover state, and no leave event
  without an enter before it. The hover states of a new group are \<^verbatim>\<open>undefined\<close>, which
  \<^verbatim>\<open>!==\<close> tells apart from \<^verbatim>\<open>false\<close>: the first pass over a segment that has just
  become visible, with the pointer at pixel 500 and the segment from pixel 100 to 200,
  emits \<^verbatim>\<open>segmentGroup.mouseleave\<close> and a \<^verbatim>\<open>segmentGroup.handle.mouseleave\<close> for each
  handle into an empty log.
\<close>

theorem C5_leave_events_on_first_pass:
  "\<exists>L'. updateSegments 1 overlapsRange [''b'']
       ((exampleLayer \<lparr>startTime = 0, endTime = 1 / 2\<rparr> \<lparr>startTime = 1, endTime = 2\<rparr>
          (newSegmentGroup ''b'') (Some 500) (Some 5))\<lparr>segmentGroups := [], allocated := 0\<rparr>)
       0 10 = Inr (1, L') \<and>
     segmentGroups L' = [(''b'', 0)] \<and>
     emitted L' = [SegmentGroupMouseLeave 0, HandleMouseLeave 0 (Some True),
                   HandleMouseLeave 0 (Some False)]"
  by (simp add: example_defs render_defs hover_defs update_defs renderSegmentGroup.simps Let_def)


section \<open>Draw calls of a pass over the visible segments\<close>

lemma updateGroup_fields [simp]:
  "segments (updateGroup L g f) = segments L"
  "emitted (updateGroup L g f) = emitted L"
  "draws (updateGroup L g f) = draws L"
  "segmentGroups (updateGroup L g f) = segmentGroups L"
  "mouseX (updateGroup L g f) = mouseX L"
  "mouseY (updateGroup L g f) = mouseY L"
  "l_isMouseOver (updateGroup L g f) = l_isMouseOver L"
  "viewData (updateGroup L g f) = viewData L"
  "viewFrameOffset (updateGroup L g f) = viewFrameOffset L"
  "viewWidth (updateGroup L g f) = viewWidth L"
  "groups (updateGroup L g f) r = (if r = g then f (groups L g) else groups L r)"
  by (simp_all add: updateGroup_def)










lemma removeSegment_draws [simp]:
  "draws (removeSegment L sg) = draws L"
  by (simp add: removeSegment_def split: option.splits)


lemma removeInvisibleLoop_count:
  "c \<le> fst (removeInvisibleLoop isVisible st et L ks c)"
proof (induction ks arbitrary: L c)
  case Nil
  then show ?case by simp
next
  case (Cons k ks)
  show ?case
    using Cons.IH [of c L] Cons.IH [of "Suc c"]
    by (auto split: option.splits intro: Suc_leD)
qed



section \<open>A pass over a layer at rest returns\<close>


lemma atRest_updateGroup_hover:
  "atRest (updateGroup L g (\<lambda>grp. grp\<lparr>isMouseOver := v\<rparr>)) = atRest L"
  "atRest (setStartHover L g b) = atRest L"
  "atRest (setEndHover L g b) = atRest L"
  "atRest (emit L ev) = atRest L"
  "atRest (draw L) = atRest L"
  "atRest (updateGeometry L g) = atRest L"
  by (rule ext, simp add: atRest_def setStartHover_def setEndHover_def)+









section \<open>The registry during a pass over the visible segments\<close>


lemma sameRegistry_refl [simp]: "sameRegistry L L"
  by (simp add: sameRegistry_def)


lemma allocated_fields [simp]:
  "allocated (updateGroup L g f) = allocated L"
  "allocated (updateGeometry L g) = allocated L"
  "allocated (setTouching L g b) = allocated L"
  "allocated (commitStart L g t) = allocated L"
  "allocated (commitEnd L g t) = allocated L"
  "allocated (emit L ev) = allocated L"
  "allocated (draw L) = allocated L"
  by (simp_all add: updateGroup_def updateGeometry_def setTouching_def commitStart_def
      commitEnd_def emit_def draw_def Let_def)

lemma sameRegistry_steps [simp]:
  "sameRegistry L (updateGeometry L' g) = sameRegistry L L'"
  "sameRegistry L (setTouching L' g b) = sameRegistry L L'"
  "sameRegistry L (commitStart L' g t) = sameRegistry L L'"
  "sameRegistry L (commitEnd L' g t) = sameRegistry L L'"
  "sameRegistry L (emit L' ev) = sameRegistry L L'"
  "sameRegistry L (draw L') = sameRegistry L L'"
  by (simp_all add: sameRegistry_def)

lemma sameRegistry_from [simp]:
  "sameRegistry (setTouching L g b) L' = sameRegistry L L'"
  "sameRegistry (emit L ev) L' = sameRegistry L L'"
  by (simp_all add: sameRegistry_def)




lemma sameRegistry_hover [simp]:
  "sameRegistry (updateGroup L g (\<lambda>grp. grp\<lparr>isMouseOver := v\<rparr>)) L' = sameRegistry L L'"
  "sameRegistry (setStartHover L g b) L' = sameRegistry L L'"
  "sameRegistry (setEndHover L g b) L' = sameRegistry L L'"
  by (auto simp: sameRegistry_def setStartHover_def setEndHover_def updateGroup_def)









lemma removeSegment_fields [simp]:
  "groups (removeSegment L sg) = groups L"
  "segments (removeSegment L sg) = segments L"
  "allocated (removeSegment L sg) = allocated L"
  by (simp_all add: removeSegment_def split: option.splits)






lemma registryKeyed_count [simp]:
  "registryKeyed (L\<lparr>visibleSegmentsCount := c\<rparr>) = registryKeyed L"
  by (simp add: registryKeyed_def)




section \<open>Hover states after a pass\<close>

lemma updateGeometry_in_sync:
  assumes "inSync L g"
  shows "updateGeometry L g = L"
proof -
  have "groups (updateGeometry L g) g = groups L g"
    using assms by (simp add: updateGeometry_groups inSync_def Let_def)
  moreover have "updateGeometry L g = L\<lparr>groups := (groups L)(g := groups (updateGeometry L g) g)\<rparr>"
    by (simp add: updateGeometry_def updateGroup_def Let_def)
  ultimately show ?thesis by simp
qed

lemma draw_pointer_fields [simp]:
  "mouseX (draw L) = mouseX L"
  "mouseY (draw L) = mouseY L"
  "l_isMouseOver (draw L) = l_isMouseOver L"
  "viewData (draw L) = viewData L"
  "viewFrameOffset (draw L) = viewFrameOffset L"
  "viewWidth (draw L) = viewWidth L"
  by (simp_all add: draw_def)

lemma segmentOf_hover [simp]:
  "segmentOf (emit L ev) = segmentOf L"
  "segmentOf (draw L) = segmentOf L"
  "segmentOf (updateGroup L g (\<lambda>grp. grp\<lparr>isMouseOver := v\<rparr>)) = segmentOf L"
  "segmentOf (setStartHover L g b) = segmentOf L"
  "segmentOf (setEndHover L g b) = segmentOf L"
  by (rule ext, simp add: segmentOf_def setStartHover_def setEndHover_def)+

lemma inSync_hover:
  "inSync (emit L ev) = inSync L"
  "inSync (draw L) = inSync L"
  "inSync (updateGroup L g (\<lambda>grp. grp\<lparr>isMouseOver := v\<rparr>)) = inSync L"
  "inSync (setStartHover L g b) = inSync L"
  "inSync (setEndHover L g b) = inSync L"
  by (rule ext, simp add: inSync_def Let_def segmentOf_def setStartHover_def setEndHover_def)+

lemma emitHover_in_sync:
  assumes "atRest L g" and "inSync L g"
  shows "emitHover (Suc n) L ev g = Inr (draw (emit L ev))"
proof -
  have "atRest (emit L ev) g" "inSync (emit L ev) g"
    using assms by (simp_all add: atRest_updateGroup_hover inSync_hover)
  then have "renderSegmentGroup (Suc n) (emit L ev) g = Inr (emit L ev)"
    by (simp add: atRest_def render_not_dragging updateGeometry_in_sync)
  then show ?thesis by (simp add: emitHover_def)
qed

lemma setStartHover_fields [simp]:
  "mouseX (setStartHover L g b) = mouseX L"
  "mouseY (setStartHover L g b) = mouseY L"
  "isMouseOver (groups (setStartHover L g b) r) = isMouseOver (groups L r)"
  "highlightRect (groups (setStartHover L g b) r) = highlightRect (groups L r)"
  "h_isMouseOver (startHandle (groups (setStartHover L g b) g)) = Some b"
  "h_isMouseOver (endHandle (groups (setStartHover L g b) r)) = h_isMouseOver (endHandle (groups L r))"
  by (simp_all add: setStartHover_def)

lemma setEndHover_fields [simp]:
  "mouseX (setEndHover L g b) = mouseX L"
  "mouseY (setEndHover L g b) = mouseY L"
  "isMouseOver (groups (setEndHover L g b) r) = isMouseOver (groups L r)"
  "highlightRect (groups (setEndHover L g b) r) = highlightRect (groups L r)"
  "h_isMouseOver (endHandle (groups (setEndHover L g b) g)) = Some b"
  "h_isMouseOver (startHandle (groups (setEndHover L g b) r)) = h_isMouseOver (startHandle (groups L r))"
  by (simp_all add: setEndHover_def)

lemma bodyHover_in_sync:
  assumes "atRest L g" and "inSync L g"
  shows "\<exists>L1. bodyHover (Suc n) L g b = Inr L1 \<and> atRest L1 g \<and> inSync L1 g \<and>
           mouseX L1 = mouseX L \<and> mouseY L1 = mouseY L \<and>
           highlightRect (groups L1 g) = highlightRect (groups L g) \<and>
           isMouseOver (groups L1 g) = Some b"
proof (cases "Some b \<noteq> isMouseOver (groups L g)")
  case False
  with assms show ?thesis by (simp add: bodyHover_def)
next
  case True
  let ?L1 = "updateGroup L g (\<lambda>grp. grp\<lparr>isMouseOver := Some b\<rparr>)"
  have s1: "atRest ?L1 g" "inSync ?L1 g"
    using assms by (simp_all add: atRest_updateGroup_hover inSync_hover)
  show ?thesis
  proof (cases b)
    case b: True
    have "bodyHover (Suc n) L g b = Inr (draw (emit ?L1 (SegmentGroupMouseEnter g)))"
      using True b emitHover_in_sync [OF s1] by (simp add: bodyHover_def)
    with s1 show ?thesis
      by (simp add: atRest_updateGroup_hover inSync_hover)
  next
    case b: False
    let ?L2 = "draw (emit ?L1 (SegmentGroupMouseLeave g))"
    have s2: "atRest ?L2 g" "inSync ?L2 g"
      using s1 by (simp_all add: atRest_updateGroup_hover inSync_hover)
    let ?L3 = "if h_isMouseOver (startHandle (groups ?L2 g)) = Some True
               then draw (emit (setStartHover ?L2 g False) (HandleMouseLeave g (Some True)))
               else ?L2"
    have s3: "atRest ?L3 g" "inSync ?L3 g"
      using s2 by (simp_all add: atRest_updateGroup_hover inSync_hover)
    have step3: "(if h_isMouseOver (startHandle (groups ?L2 g)) = Some True
                  then emitHover (Suc n) (setStartHover ?L2 g False)
                         (HandleMouseLeave g (Some True)) g
                  else Inr ?L2) = Inr ?L3"
      using s2 by (simp add: emitHover_in_sync atRest_updateGroup_hover inSync_hover)
    let ?L4 = "if h_isMouseOver (endHandle (groups ?L3 g)) = Some True
               then draw (emit (setEndHover ?L3 g False) (HandleMouseLeave g None))
               else ?L3"
    have step4: "(if h_isMouseOver (endHandle (groups ?L3 g)) = Some True
                  then emitHover (Suc n) (setEndHover ?L3 g False) (HandleMouseLeave g None) g
                  else Inr ?L3) = Inr ?L4"
      using s3 by (simp add: emitHover_in_sync atRest_updateGroup_hover inSync_hover)
    define S3 where "S3 = (\<lambda>L2.
      if h_isMouseOver (startHandle (groups L2 g)) = Some True
      then emitHover (Suc n) (setStartHover L2 g False) (HandleMouseLeave g (Some True)) g
      else Inr L2)"
    define S4 where "S4 = (\<lambda>L3.
      if h_isMouseOver (endHandle (groups L3 g)) = Some True
      then emitHover (Suc n) (setEndHover L3 g False) (HandleMouseLeave g None) g
      else Inr L3)"
    have body: "bodyHover (Suc n) L g b
        = thenDo (emitHover (Suc n) ?L1 (SegmentGroupMouseLeave g) g)
            (\<lambda>L2. thenDo (S3 L2) S4)"
      using True b by (simp add: bodyHover_def Let_def S3_def S4_def)
    have e1: "emitHover (Suc n) ?L1 (SegmentGroupMouseLeave g) g = Inr ?L2"
      by (rule emitHover_in_sync [OF s1])
    have e3: "S3 ?L2 = Inr ?L3" unfolding S3_def by (rule step3)
    have e4: "S4 ?L3 = Inr ?L4" unfolding S4_def by (rule step4)
    have run: "bodyHover (Suc n) L g b = Inr ?L4"
      by (simp only: body e1 e3 e4 thenDo_simps)
    have "atRest ?L4 g" "inSync ?L4 g"
      using s3 by (simp_all add: atRest_updateGroup_hover inSync_hover)
    moreover have "mouseX ?L4 = mouseX L" "mouseY ?L4 = mouseY L"
      "highlightRect (groups ?L4 g) = highlightRect (groups L g)"
      "isMouseOver (groups ?L4 g) = Some b"
      by simp_all
    ultimately show ?thesis using run by blast
  qed
qed

lemma startHandleHover_in_sync:
  assumes "atRest L g" and "inSync L g"
  shows "\<exists>L1. startHandleHover (Suc n) L g b x y = Inr L1 \<and> atRest L1 g \<and> inSync L1 g \<and>
           mouseX L1 = mouseX L \<and> mouseY L1 = mouseY L \<and>
           isMouseOver (groups L1 g) = isMouseOver (groups L g) \<and>
           h_isMouseOver (startHandle (groups L1 g)) = Some (isStartHandleMouseOver L g b x y)"
proof (cases "Some (isStartHandleMouseOver L g b x y) \<noteq> h_isMouseOver (startHandle (groups L g))")
  case False
  with assms show ?thesis by (simp add: startHandleHover_def Let_def)
next
  case True
  let ?o = "isStartHandleMouseOver L g b x y"
  let ?L1 = "setStartHover L g ?o"
  have s: "atRest ?L1 g" "inSync ?L1 g"
    using assms by (simp_all add: atRest_updateGroup_hover inSync_hover)
  have "startHandleHover (Suc n) L g b x y
      = Inr (draw (emit ?L1 ((if ?o then HandleMouseEnter else HandleMouseLeave) g (Some True))))"
    using True emitHover_in_sync [OF s] by (simp add: startHandleHover_def Let_def)
  with s show ?thesis
    by (simp add: atRest_updateGroup_hover inSync_hover)
qed

lemma endHandleHover_in_sync:
  assumes "atRest L g" and "inSync L g"
  shows "\<exists>L1. endHandleHover (Suc n) L g b e x y = Inr L1 \<and>
           isMouseOver (groups L1 g) = isMouseOver (groups L g) \<and>
           h_isMouseOver (startHandle (groups L1 g)) = h_isMouseOver (startHandle (groups L g)) \<and>
           h_isMouseOver (endHandle (groups L1 g)) = Some (isEndHandleMouseOver b e x y)"
proof (cases "Some (isEndHandleMouseOver b e x y) \<noteq> h_isMouseOver (endHandle (groups L g))")
  case False
  then show ?thesis by (simp add: endHandleHover_def Let_def)
next
  case True
  let ?o = "isEndHandleMouseOver b e x y"
  let ?L1 = "setEndHover L g ?o"
  have s: "atRest ?L1 g" "inSync ?L1 g"
    using assms by (simp_all add: atRest_updateGroup_hover inSync_hover)
  have "endHandleHover (Suc n) L g b e x y
      = Inr (draw (emit ?L1 ((if ?o then HandleMouseEnter else HandleMouseLeave) g (Some False))))"
    using True emitHover_in_sync [OF s] by (simp add: endHandleHover_def Let_def)
  then show ?thesis by simp
qed

text \<open>
  C6, amended. After a hover pass over a group at rest whose shapes are where the last
  render put them, the body is hovered if and only if the pointer is over the layer
  and inside the highlight rectangle, and a handle is hovered if and only if the body
  is hovered and the pointer is within 3 pixels of the handle's edge of the rectangle,
  at any height, or within the handle's width of that edge and not below the handle's
  height.
\<close>

theorem C6_handle_hover_states:
  assumes "atRest L g" and "inSync L g"
  shows "\<exists>L'. emitEvents (Suc n) L g = Inr L' \<and>
     isMouseOver (groups L' g) = Some (isSegmentMouseOver L g) \<and>
     h_isMouseOver (startHandle (groups L' g))
       = Some (isSegmentMouseOver L g \<and>
           (pointerLe (mouseX L) (rect_x (highlightRect (groups L g)) + 3) \<or>
            (pointerLe (mouseX L) (rect_x (highlightRect (groups L g)) + handleSize) \<and>
             pointerLe (mouseY L) handleSize))) \<and>
     h_isMouseOver (endHandle (groups L' g))
       = Some (isSegmentMouseOver L g \<and>
           (pointerGe (mouseX L)
              (rect_x (highlightRect (groups L g)) + rect_width (highlightRect (groups L g)) - 3) \<or>
            (pointerGe (mouseX L)
               (rect_x (highlightRect (groups L g)) + rect_width (highlightRect (groups L g))
                  - handleSize) \<and>
             pointerLe (mouseY L) handleSize)))"
proof -
  let ?b = "isSegmentMouseOver L g"
  let ?e = "rect_x (highlightRect (groups L g)) + rect_width (highlightRect (groups L g))"
  from bodyHover_in_sync [OF assms, of n ?b] obtain L1 where
    L1: "bodyHover (Suc n) L g ?b = Inr L1" "atRest L1 g" "inSync L1 g"
      "mouseX L1 = mouseX L" "mouseY L1 = mouseY L"
      "highlightRect (groups L1 g) = highlightRect (groups L g)"
      "isMouseOver (groups L1 g) = Some ?b"
    by blast
  from startHandleHover_in_sync [OF L1(2,3), of n ?b "mouseX L" "mouseY L"] obtain L2 where
    L2: "startHandleHover (Suc n) L1 g ?b (mouseX L) (mouseY L) = Inr L2"
      "atRest L2 g" "inSync L2 g"
      "isMouseOver (groups L2 g) = isMouseOver (groups L1 g)"
      "h_isMouseOver (startHandle (groups L2 g))
         = Some (isStartHandleMouseOver L1 g ?b (mouseX L) (mouseY L))"
    by blast
  from endHandleHover_in_sync [OF L2(2,3), of n ?b ?e "mouseX L" "mouseY L"] obtain L3 where
    L3: "endHandleHover (Suc n) L2 g ?b ?e (mouseX L) (mouseY L) = Inr L3"
      "isMouseOver (groups L3 g) = isMouseOver (groups L2 g)"
      "h_isMouseOver (startHandle (groups L3 g)) = h_isMouseOver (startHandle (groups L2 g))"
      "h_isMouseOver (endHandle (groups L3 g))
         = Some (isEndHandleMouseOver ?b ?e (mouseX L) (mouseY L))"
    by blast
  have run: "emitEvents (Suc n) L g = Inr L3"
    using L1(1) L2(1) L3(1) by (simp add: emitEvents_def Let_def)
  have start: "isStartHandleMouseOver L1 g ?b (mouseX L) (mouseY L)
      = (?b \<and> (pointerLe (mouseX L) (rect_x (highlightRect (groups L g)) + 3) \<or>
           (pointerLe (mouseX L) (rect_x (highlightRect (groups L g)) + handleSize) \<and>
            pointerLe (mouseY L) handleSize)))"
    using L1(6) by (simp add: isStartHandleMouseOver_def Let_def)
  have "isEndHandleMouseOver ?b ?e (mouseX L) (mouseY L)
      = (?b \<and> (pointerGe (mouseX L) (?e - 3) \<or>
           (pointerGe (mouseX L) (?e - handleSize) \<and> pointerLe (mouseY L) handleSize)))"
    by (simp add: isEndHandleMouseOver_def)
  with run start L1(7) L2(4,5) L3(2,3,4) show ?thesis
    by simp
qed

theorem C6_witness:
  "atRest (updateGeometry (exampleLayer \<lparr>startTime = 0, endTime = 1 / 2\<rparr>
       \<lparr>startTime = 1, endTime = 2\<rparr> (newSegmentGroup ''b'') (Some 102) (Some 5)) 1) 1 \<and>
   inSync (updateGeometry (exampleLayer \<lparr>startTime = 0, endTime = 1 / 2\<rparr>
       \<lparr>startTime = 1, endTime = 2\<rparr> (newSegmentGroup ''b'') (Some 102) (Some 5)) 1) 1 \<and>
   (\<exists>L'. emitEvents (Suc 0) (updateGeometry (exampleLayer \<lparr>startTime = 0, endTime = 1 / 2\<rparr>
       \<lparr>startTime = 1, endTime = 2\<rparr> (newSegmentGroup ''b'') (Some 102) (Some 5)) 1) 1 = Inr L' \<and>
      isMouseOver (groups L' 1) = Some True \<and>
      h_isMouseOver (startHandle (groups L' 1)) = Some True \<and>
      h_isMouseOver (endHandle (groups L' 1)) = Some False)"
proof -
  let ?L = "updateGeometry (exampleLayer \<lparr>startTime = 0, endTime = 1 / 2\<rparr>
       \<lparr>startTime = 1, endTime = 2\<rparr> (newSegmentGroup ''b'') (Some 102) (Some 5)) 1"
  have rest: "atRest ?L 1"
    by (simp add: atRest_def example_defs)
  have sync: "inSync ?L 1"
    by (simp add: inSync_def updateGeometry_groups segmentOf_def example_defs Let_def)
  have over: "isSegmentMouseOver ?L 1"
    by (simp add: isSegmentMouseOver_def updateGeometry_groups segmentOf_def example_defs
        timeToPixels_def pointerGt_def pointerLe_def Let_def)
  have x: "rect_x (highlightRect (groups ?L 1)) = 100" "rect_width (highlightRect (groups ?L 1)) = 100"
    "mouseX ?L = Some 102" "mouseY ?L = Some 5"
    by (simp_all add: updateGeometry_groups segmentOf_def example_defs timeToPixels_def)
  from C6_handle_hover_states [OF rest sync, of 0] obtain L' where
    run: "emitEvents (Suc 0) ?L 1 = Inr L'"
    and body: "isMouseOver (groups L' 1) = Some (isSegmentMouseOver ?L 1)"
    and start: "h_isMouseOver (startHandle (groups L' 1))
       = Some (isSegmentMouseOver ?L 1 \<and>
           (pointerLe (mouseX ?L) (rect_x (highlightRect (groups ?L 1)) + 3) \<or>
            (pointerLe (mouseX ?L) (rect_x (highlightRect (groups ?L 1)) + handleSize) \<and>
             pointerLe (mouseY ?L) handleSize)))"
    and "end": "h_isMouseOver (endHandle (groups L' 1))
       = Some (isSegmentMouseOver ?L 1 \<and>
           (pointerGe (mouseX ?L)
              (rect_x (highlightRect (groups ?L 1)) + rect_width (highlightRect (groups ?L 1)) - 3) \<or>
            (pointerGe (mouseX ?L)
               (rect_x (highlightRect (groups ?L 1)) + rect_width (highlightRect (groups ?L 1))
                  - handleSize) \<and>
             pointerLe (mouseY ?L) handleSize)))"
    by blast
  have "isMouseOver (groups L' 1) = Some True"
    using body over by (simp only: simp_thms)
  moreover have "h_isMouseOver (startHandle (groups L' 1)) = Some True"
    unfolding start x using over by (simp add: pointerLe_def)
  moreover have "h_isMouseOver (endHandle (groups L' 1)) = Some False"
    unfolding "end" x by (simp add: pointerGe_def handleSize_def)
  ultimately show ?thesis using rest sync run by blast
qed

text \<open>
  C6 as stated: in both branches a hovered handle has the pointer within its vertical
  extent. Two pixels right of the start edge and at height 100, far below the handle
  of 16 pixels, the start handle is hovered.
\<close>

theorem C6_counterexample_tolerance_band_any_height:
  "\<exists>L'. emitEvents 1 (updateGeometry (exampleLayer \<lparr>startTime = 0, endTime = 1 / 2\<rparr>
       \<lparr>startTime = 1, endTime = 2\<rparr> (newSegmentGroup ''b'') (Some 102) (Some 100)) 1) 1 = Inr L' \<and>
     h_isMouseOver (startHandle (groups L' 1)) = Some True \<and>
     mouseY L' = Some 100 \<and> \<not> pointerLe (mouseY L') handleSize"
  by (simp add: example_defs render_defs hover_defs renderSegmentGroup.simps Let_def)

text \<open>A pass over a group whose stored hover states are the computed ones emits nothing.\<close>

lemma emitEvents_steady:
  assumes "isMouseOver (groups L g) = Some (isSegmentMouseOver L g)"
    and "h_isMouseOver (startHandle (groups L g))
           = Some (isStartHandleMouseOver L g (isSegmentMouseOver L g) (mouseX L) (mouseY L))"
    and "h_isMouseOver (endHandle (groups L g))
           = Some (isEndHandleMouseOver (isSegmentMouseOver L g)
               (rect_x (highlightRect (groups L g)) + rect_width (highlightRect (groups L g)))
               (mouseX L) (mouseY L))"
  shows "emitEvents n L g = Inr L"
  using assms
  by (simp add: emitEvents_def bodyHover_def startHandleHover_def endHandleHover_def Let_def)

end
